theory Spec2Isabelle
  imports Main "HOL-Library.Sublist" "HOL-Library.Code_Target_Nat"
begin

section \<open>JavaScript strings, errors and values\<close>

text \<open>
  A JavaScript string is a sequence of UTF-16 code units. The program tests strings for
  prefixes, substrings and equality, and hands one to \<^verbatim>\<open>btoa\<close>, which looks at the code
  units themselves; so a string is modelled as the list of its code units. \<open>str\<close>
  embeds an ASCII literal; the Korean literals of the source are written as code units.
\<close>

type_synonym jsstring = "nat list"

definition str :: "string \<Rightarrow> jsstring" where
  "str s = map of_char s"

definition startsWith :: "jsstring \<Rightarrow> jsstring \<Rightarrow> bool" where
  \<comment> \<open>\<^verbatim>\<open>s.startsWith(p)\<close>\<close>
  "startsWith s p = prefix p s"

definition includesStr :: "jsstring \<Rightarrow> jsstring \<Rightarrow> bool" where
  \<comment> \<open>\<^verbatim>\<open>s.includes(p)\<close>\<close>
  "includesStr s p = sublist p s"

definition lowerUnit :: "nat \<Rightarrow> jsstring" where
  \<comment> \<open>The lower-case mapping of one code unit. Only the mappings that produce an ASCII
      letter are written out (A to Z, U+0130 and the Kelvin sign U+212A); every other code
      unit is kept, which changes no test for an ASCII substring.\<close>
  "lowerUnit c =
     (if 65 \<le> c \<and> c \<le> 90 then [c + 32]
      else if c = 0x130 then [0x69, 0x307]
      else if c = 0x212A then [0x6B]
      else [c])"

definition toLowerCase :: "jsstring \<Rightarrow> jsstring" where
  "toLowerCase s = concat (map lowerUnit s)"

definition isWhiteSpace :: "nat \<Rightarrow> bool" where
  \<comment> \<open>White space and line terminators, as \<^verbatim>\<open>String.prototype.trim\<close> removes them.\<close>
  "isWhiteSpace c =
     (c \<in> {0x9, 0xA, 0xB, 0xC, 0xD, 0x20, 0xA0, 0x1680, 0x2028, 0x2029, 0x202F, 0x205F,
            0x3000, 0xFEFF} \<or> (0x2000 \<le> c \<and> c \<le> 0x200A))"

definition trim :: "jsstring \<Rightarrow> jsstring" where
  "trim s = rev (dropWhile isWhiteSpace (rev (dropWhile isWhiteSpace s)))"

fun digitsOf :: "nat \<Rightarrow> jsstring" where
  "digitsOf n = (if n < 10 then [48 + n] else digitsOf (n div 10) @ [48 + n mod 10])"

definition numberToString :: "int \<Rightarrow> jsstring" where
  \<comment> \<open>The decimal form of an integral number, which is what JavaScript prints for it
      when its magnitude is below ten to the power 21; from there on JavaScript prints an exponent
      form, which is not modelled. The program prints section indices, HTTP status
      codes, and a number that a response holds where a string is expected.\<close>
  "numberToString i = (if i < 0 then str ''-'' @ digitsOf (nat (- i)) else digitsOf (nat i))"

text \<open>
  A thrown value is an error object with a name and a message; the program reads both
  (\<^verbatim>\<open>error.name === 'AbortError'\<close>, \<^verbatim>\<open>error.message === "CREDITS_INSUFFICIENT"\<close>).
  The messages of errors raised by the runtime itself differ between engines; they are
  given a fixed text here.
\<close>

datatype js_error = JsError (err_name: jsstring) (err_message: jsstring)

definition Error :: "jsstring \<Rightarrow> js_error" where
  \<comment> \<open>\<^verbatim>\<open>new Error(message)\<close>\<close>
  "Error msg = JsError (str ''Error'') msg"

definition TypeError :: js_error where
  \<comment> \<open>Reading a property of \<^verbatim>\<open>undefined\<close> or \<^verbatim>\<open>null\<close>, calling what is not a function,
      iterating what is not iterable.\<close>
  "TypeError = JsError (str ''TypeError'') (str ''not an object, not a function or not iterable'')"

definition InvalidCharacterError :: js_error where
  \<comment> \<open>The DOMException of \<^verbatim>\<open>btoa\<close> and \<^verbatim>\<open>atob\<close>.\<close>
  "InvalidCharacterError =
     JsError (str ''InvalidCharacterError'') (str ''invalid character in base64 input'')"

definition CREDITS_INSUFFICIENT :: jsstring where
  "CREDITS_INSUFFICIENT = str ''CREDITS_INSUFFICIENT''"

text \<open>
  Values that come out of \<^verbatim>\<open>response.json()\<close> and \<^verbatim>\<open>JSON.parse\<close> are untyped
  (\<^verbatim>\<open>any\<close>) in the source, so they are modelled dynamically. Numbers are restricted to
  integers. An object is the list of its own properties; a property found earlier in the
  list hides a later one of the same name. No value is a function: what \<^verbatim>\<open>JSON.parse\<close>
  and \<^verbatim>\<open>response.json()\<close> return holds none.
\<close>

datatype jsval =
    JUndefined
  | JNull
  | JBool bool
  | JNum int
  | JStr jsstring
  | JArr "jsval list"
  | JObj "(jsstring \<times> jsval) list"

fun truthy :: "jsval \<Rightarrow> bool" where
  "truthy JUndefined = False"
| "truthy JNull = False"
| "truthy (JBool b) = b"
| "truthy (JNum n) = (n \<noteq> 0)"
| "truthy (JStr s) = (s \<noteq> [])"
| "truthy (JArr xs) = True"
| "truthy (JObj kvs) = True"

fun nullish :: "jsval \<Rightarrow> bool" where
  "nullish JUndefined = True"
| "nullish JNull = True"
| "nullish v = False"

definition orElse :: "jsval \<Rightarrow> jsval \<Rightarrow> jsval" where
  \<comment> \<open>\<^verbatim>\<open>a || b\<close> on values already computed\<close>
  "orElse a b = (if truthy a then a else b)"

text \<open>
  \<open>getProp v k\<close> is the property read \<^verbatim>\<open>v.k\<close> (and \<^verbatim>\<open>v[0]\<close> for \<open>k = str ''0''\<close>), for the
  property names this program reads: \<^verbatim>\<open>candidates\<close>, \<^verbatim>\<open>content\<close>, \<^verbatim>\<open>parts\<close>, \<^verbatim>\<open>text\<close>,
  \<^verbatim>\<open>sections\<close>, \<^verbatim>\<open>error\<close>, \<^verbatim>\<open>message\<close>, \<^verbatim>\<open>length\<close>, \<^verbatim>\<open>0\<close>, the fields of a section and of
  inline data. None of them is inherited from a prototype, so on an object the read is
  a lookup among its own properties, on an array or a string only \<^verbatim>\<open>length\<close> and the
  index exist, and on a number or a boolean the result is \<^verbatim>\<open>undefined\<close>. Reading a
  property of \<^verbatim>\<open>undefined\<close> or \<^verbatim>\<open>null\<close> throws.
\<close>

fun getProp :: "jsval \<Rightarrow> jsstring \<Rightarrow> js_error + jsval" where
  "getProp JUndefined k = Inl TypeError"
| "getProp JNull k = Inl TypeError"
| "getProp (JObj kvs) k = Inr (case map_of kvs k of Some v \<Rightarrow> v | None \<Rightarrow> JUndefined)"
| "getProp (JArr xs) k =
     Inr (if k = str ''length'' then JNum (int (length xs))
          else if k = str ''0'' then (case xs of [] \<Rightarrow> JUndefined | x # _ \<Rightarrow> x)
          else JUndefined)"
| "getProp (JStr s) k =
     Inr (if k = str ''length'' then JNum (int (length s))
          else if k = str ''0'' then (case s of [] \<Rightarrow> JUndefined | c # _ \<Rightarrow> JStr [c])
          else JUndefined)"
| "getProp (JBool b) k = Inr JUndefined"
| "getProp (JNum n) k = Inr JUndefined"

definition optProp :: "jsval \<Rightarrow> jsstring \<Rightarrow> jsval" where
  \<comment> \<open>\<^verbatim>\<open>v?.k\<close>, which never throws\<close>
  "optProp v k = (case getProp v k of Inl e \<Rightarrow> JUndefined | Inr x \<Rightarrow> x)"

fun joinWith :: "jsstring \<Rightarrow> jsstring list \<Rightarrow> jsstring" where
  "joinWith sep [] = []"
| "joinWith sep [x] = x"
| "joinWith sep (x # y # ys) = x @ sep @ joinWith sep (y # ys)"

text \<open>
  \<open>toString v\<close> is the string conversion that a template literal \<^verbatim>\<open>`${v}`\<close> and
  \<^verbatim>\<open>new Error(v)\<close> apply. On an object it calls the \<^verbatim>\<open>toString\<close> method: an object
  without a property \<^verbatim>\<open>toString\<close> of its own inherits the one of \<^verbatim>\<open>Object.prototype\<close>
  and prints as \<^verbatim>\<open>[object Object]\<close>; an own property \<^verbatim>\<open>toString\<close> is not a function
  here, so the conversion goes on to \<^verbatim>\<open>valueOf\<close>, which is not a function either or is
  the inherited one and returns the object itself, and the conversion throws a
  \<^verbatim>\<open>TypeError\<close>. An array prints its elements joined by commas, \<^verbatim>\<open>null\<close> and
  \<^verbatim>\<open>undefined\<close> as nothing; an element that cannot be converted makes the whole
  conversion throw.
\<close>

fun toString :: "jsval \<Rightarrow> js_error + jsstring"
  and elementStrings :: "jsval list \<Rightarrow> js_error + jsstring list" where
  "toString JUndefined = Inr (str ''undefined'')"
| "toString JNull = Inr (str ''null'')"
| "toString (JBool b) = Inr (if b then str ''true'' else str ''false'')"
| "toString (JNum n) = Inr (numberToString n)"
| "toString (JStr s) = Inr s"
| "toString (JArr xs) =
     (case elementStrings xs of
        Inl e \<Rightarrow> Inl e
      | Inr ss \<Rightarrow> Inr (joinWith (str '','') ss))"
| "toString (JObj kvs) =
     (case map_of kvs (str ''toString'') of
        None \<Rightarrow> Inr (str ''[object Object]'')
      | Some v \<Rightarrow> Inl TypeError)"
| "elementStrings [] = Inr []"
| "elementStrings (x # xs) =
     (case (if nullish x then Inr [] else toString x) of
        Inl e \<Rightarrow> Inl e
      | Inr s \<Rightarrow> (case elementStrings xs of Inl e \<Rightarrow> Inl e | Inr ss \<Rightarrow> Inr (s # ss)))"

section \<open>Base64\<close>

definition base64Alphabet :: jsstring where
  "base64Alphabet = str ''ABCDEFGHIJKLMNOPQRSTUVWXYZabcdefghijklmnopqrstuvwxyz0123456789+/''"

fun base64Encode :: "nat list \<Rightarrow> jsstring" where
  "base64Encode [] = []"
| "base64Encode [a] =
     [base64Alphabet ! (a div 4), base64Alphabet ! ((a mod 4) * 16), 61, 61]"
| "base64Encode [a, b] =
     [base64Alphabet ! (a div 4), base64Alphabet ! ((a mod 4) * 16 + b div 16),
      base64Alphabet ! ((b mod 16) * 4), 61]"
| "base64Encode (a # b # c # rest) =
     [base64Alphabet ! (a div 4), base64Alphabet ! ((a mod 4) * 16 + b div 16),
      base64Alphabet ! ((b mod 16) * 4 + c div 64), base64Alphabet ! (c mod 64)]
     @ base64Encode rest"

definition btoa :: "jsstring \<Rightarrow> js_error + jsstring" where
  \<comment> \<open>\<^verbatim>\<open>btoa\<close> throws when a code unit is above U+00FF.\<close>
  "btoa s = (if \<exists>c \<in> set s. 255 < c then Inl InvalidCharacterError else Inr (base64Encode s))"

definition atobAccepts :: "jsstring \<Rightarrow> bool" where
  \<comment> \<open>Whether \<^verbatim>\<open>atob\<close> decodes its argument (forgiving base64): ASCII white space is
      dropped, one or two trailing \<^verbatim>\<open>=\<close> are dropped from a length divisible by 4, the rest
      must not have length 1 modulo 4 and must lie in the alphabet. The decoded bytes
      only fill the uploaded blob and are not modelled.\<close>
  "atobAccepts s =
     (let d = filter (\<lambda>c. c \<notin> {0x9, 0xA, 0xC, 0xD, 0x20}) s;
          d' = (if length d mod 4 = 0
                then (if suffix [61, 61] d then butlast (butlast d)
                      else if suffix [61] d then butlast d else d)
                else d)
      in length d' mod 4 \<noteq> 1 \<and> (\<forall>c \<in> set d'. c \<in> set base64Alphabet))"

section \<open>The data model\<close>

text \<open>
  The declarations are those of \<^verbatim>\<open>types_backup.ts\<close>; the services import them from
  \<^verbatim>\<open>types\<close>.
\<close>

datatype PageLength = Len5 | Len7 | Len9 | Auto

datatype Platform = Coupang | Smartstore

datatype SelectedModel = Flash | Pro

datatype TargetGender = Male | Female | AllGenders

datatype ThumbnailStyle = Clean | Lifestyle | Creative

datatype TextPosition = Top | Center | Bottom

record ThumbnailConfig =
  style :: ThumbnailStyle
  includeHand :: bool
  includeModel :: bool
  textOverlay :: jsstring
  overlayPosition :: TextPosition

text \<open>
  Optional fields (\<^verbatim>\<open>pageLength?\<close>, \<^verbatim>\<open>category?\<close>, ...) are options. The price is an
  integral amount of won. Three field names are changed because the plain ones are taken:
  \<^verbatim>\<open>id\<close> and \<^verbatim>\<open>order\<close> of a section are \<open>section_id\<close> and \<open>section_order\<close>, and
  \<^verbatim>\<open>textPosition\<close> of the thumbnail settings is \<open>overlayPosition\<close>.
\<close>

record ProductData =
  name :: jsstring
  description :: jsstring
  targetAudience :: jsstring
  images :: "jsstring list"
  selectedModel :: SelectedModel
  platform :: Platform
  price :: int
  discountRate :: int
  promotionText :: jsstring
  pageLength :: "PageLength option"
  category :: "jsstring option"
  targetGender :: "TargetGender option"
  targetAge :: "jsstring list option"
  thumbnailConfig :: "ThumbnailConfig option"

text \<open>
  The fields of a section that \<^verbatim>\<open>planDetailPage\<close> copies from the parsed response are
  whatever the response holds: the declared types are not checked at run time, so these
  fields are \<open>jsval\<close>s (a field the response lacks is \<open>JUndefined\<close>). \<^verbatim>\<open>imageUrl\<close> holds
  what an image request returned, which is a string or whatever the image store put
  into \<^verbatim>\<open>secure_url\<close>, so it is a \<open>jsval\<close> too, \<open>JUndefined\<close> while the section has no
  image. \<^verbatim>\<open>isGenerating\<close> is written by the program only; \<open>None\<close> is an absent field.
\<close>

record DetailSection =
  section_id :: jsstring
  section_order :: jsval
  logicType :: jsval
  title :: jsval
  keyMessage :: jsval
  subMessage :: jsval
  visualPrompt :: jsval
  imageUrl :: jsval
  isGenerating :: "bool option"
  textPosition :: jsval
  textStyle :: jsval

record Thumbnail =
  thumbnailUrl :: jsval
  thumbnailPrompt :: jsstring

record GeneratedDetailPage =
  sections :: "DetailSection list"
  thumbnail :: "Thumbnail option"

section \<open>The network, as an input\<close>

text \<open>
  What a \<^verbatim>\<open>fetch\<close> does is an input of the model: it rejects with an error (a network
  failure, or the abort of the 90 second timer, an error named \<^verbatim>\<open>AbortError\<close>), or it
  resolves to a response, of which the program reads \<^verbatim>\<open>ok\<close>, \<^verbatim>\<open>status\<close> and the body,
  through \<^verbatim>\<open>json()\<close> or \<^verbatim>\<open>text()\<close>, each of which may reject. The request (prompt text,
  model name, resolution, aspect ratio, headers) is not represented: the theorems hold for
  every outcome of every request.
\<close>

record http_response =
  ok :: bool
  status :: nat
  json :: "js_error + jsval"
  text_body :: "js_error + jsstring"

datatype fetch_result = FetchRejected js_error | FetchResolved http_response

section \<open>geminiService.ts: credential and reference images\<close>

definition MSG_NO_API_KEY :: jsstring where
  "MSG_NO_API_KEY =
     str ''APIYI API '' @ [0xD0A4, 0xAC00] @ str '' '' @ [0xC124, 0xC815, 0xB418, 0xC9C0]
     @ str '' '' @ [0xC54A, 0xC558, 0xC2B5, 0xB2C8, 0xB2E4] @ str ''. ''
     @ [0xC124, 0xC815, 0xC5D0, 0xC11C] @ str '' API '' @ [0xD0A4, 0xB97C] @ str '' ''
     @ [0xC785, 0xB825, 0xD574, 0xC8FC, 0xC138, 0xC694] @ str ''.''"

definition getNanoBananaApiKey :: "jsstring option \<Rightarrow> js_error + jsstring" where
  \<comment> \<open>The argument is \<^verbatim>\<open>localStorage.getItem('nanoBananaApiKey')\<close>, \<open>None\<close> for \<^verbatim>\<open>null\<close>.\<close>
  "getNanoBananaApiKey stored =
     (case stored of
        None \<Rightarrow> Inl (Error MSG_NO_API_KEY)
      | Some apiKey \<Rightarrow>
          if apiKey = [] \<or> trim apiKey = [] then Inl (Error MSG_NO_API_KEY)
          else Inr (trim apiKey))"

definition isLineTerminator :: "nat \<Rightarrow> bool" where
  \<comment> \<open>What \<^verbatim>\<open>.\<close> of a regular expression does not match.\<close>
  "isLineTerminator c = (c \<in> {0xA, 0xD, 0x2028, 0x2029})"

definition isLowerOrPlus :: "nat \<Rightarrow> bool" where
  \<comment> \<open>\<^verbatim>\<open>[a-z+]\<close>\<close>
  "isLowerOrPlus c = ((97 \<le> c \<and> c \<le> 122) \<or> c = 43)"

definition matchDataUrl :: "jsstring \<Rightarrow> (jsstring \<times> jsstring) option" where
  \<comment> \<open>\<^verbatim>\<open>img.match(/^data:image\/([a-z+]+);base64,(.+)$/)\<close>: the two groups. The first
      group cannot hold a \<^verbatim>\<open>;\<close>, so it is the longest run of \<^verbatim>\<open>[a-z+]\<close>.\<close>
  "matchDataUrl img =
     (if \<not> prefix (str ''data:image/'') img then None
      else let rest = drop 11 img;
               g1 = takeWhile isLowerOrPlus rest;
               rest' = dropWhile isLowerOrPlus rest
           in if g1 = [] \<or> \<not> prefix (str '';base64,'') rest' then None
              else let g2 = drop 8 rest'
                   in if g2 = [] \<or> (\<exists>c \<in> set g2. isLineTerminator c) then None
                      else Some (g1, g2))"

definition ensureSupportedImage :: "jsstring \<Rightarrow> js_error + (jsstring \<times> jsstring)" where
  \<comment> \<open>The result is the pair \<^verbatim>\<open>(mimeType, data)\<close>.\<close>
  "ensureSupportedImage img =
     (if \<not> startsWith img (str ''data:'') then Inl (Error (str ''Invalid image format''))
      else case matchDataUrl img of
             None \<Rightarrow> Inl (Error (str ''Invalid data URL format''))
           | Some (g1, g2) \<Rightarrow> Inr (str ''image/'' @ g1, g2))"

definition getFallbackSvg :: jsstring where
  \<comment> \<open>The argument of \<^verbatim>\<open>btoa\<close> in \<^verbatim>\<open>getFallbackImage\<close>; its text element holds Korean.\<close>
  \<open>getFallbackSvg =
     str ''<svg xmlns="http://www.w3.org/2000/svg" width="400" height="600" viewBox="0 0 400 600"><rect fill="#f3f4f6" width="400" height="600"/><text x="200" y="300" fill="#9ca3af" font-family="sans-serif" font-size="14" text-anchor="middle">''
     @ [0xC774, 0xBBF8, 0xC9C0] @ str '' '' @ [0xC0DD, 0xC131] @ str '' ''
     @ [0xC2E4, 0xD328] @ str ''</text></svg>''\<close>

definition getFallbackImage :: "js_error + jsstring" where
  \<comment> \<open>\<^verbatim>\<open>`data:image/svg+xml;base64,${btoa('<svg ...>')}`\<close>\<close>
  "getFallbackImage =
     (case btoa getFallbackSvg of
        Inl e \<Rightarrow> Inl e
      | Inr b \<Rightarrow> Inr (str ''data:image/svg+xml;base64,'' @ b))"

section \<open>geminiService.ts: planning\<close>

definition SALES_LOGIC_FRAMEWORK :: "nat \<Rightarrow> jsstring list option" where
  \<comment> \<open>An object with the keys 5, 7 and 9; the roles are strings at run time.\<close>
  "SALES_LOGIC_FRAMEWORK n =
     (if n = 5 then
        Some [str ''hook'', str ''solution'', str ''clarity'', str ''service'',
              str ''riskReversal'']
      else if n = 7 then
        Some [str ''hook'', str ''solution'', str ''clarity'', str ''socialProof'',
              str ''service'', str ''riskReversal'', str ''comparison'']
      else if n = 9 then
        Some [str ''hook'', str ''solution'', str ''clarity'', str ''socialProof'',
              str ''service'', str ''brandStory'', str ''comparison'', str ''riskReversal'',
              str ''service'']
      else None)"

definition CATEGORY_BEAUTY :: jsstring where
  "CATEGORY_BEAUTY = [0xBDF0, 0xD2F0] @ str ''/'' @ [0xD654, 0xC7A5, 0xD488]"

definition CATEGORY_DIGITAL :: jsstring where
  "CATEGORY_DIGITAL = [0xB514, 0xC9C0, 0xD138] @ str ''/IT''"

definition targetLength :: "ProductData \<Rightarrow> nat" where
  \<comment> \<open>Lines 181 to 194 of \<^verbatim>\<open>planDetailPage\<close>: the variable \<^verbatim>\<open>targetLength\<close>, 7 by default.\<close>
  "targetLength productData =
     (case pageLength productData of
        Some Auto \<Rightarrow>
          if 100000 < price productData
             \<or> (case category productData of None \<Rightarrow> [] | Some c \<Rightarrow> c)
                 \<in> set [CATEGORY_BEAUTY, CATEGORY_DIGITAL]
          then 9
          else if 30000 < price productData then 7
          else 5
      | Some Len5 \<Rightarrow> 5
      | Some Len7 \<Rightarrow> 7
      | Some Len9 \<Rightarrow> 9
      | None \<Rightarrow> 7)"

definition logicSequence :: "ProductData \<Rightarrow> jsstring list option" where
  \<comment> \<open>\<^verbatim>\<open>SALES_LOGIC_FRAMEWORK[targetLength]\<close>, the roles listed in the prompt\<close>
  "logicSequence productData = SALES_LOGIC_FRAMEWORK (targetLength productData)"

definition MSG_PLAN_FAILED :: jsstring where
  "MSG_PLAN_FAILED =
     [0xC0C1, 0xC138, 0xD398, 0xC774, 0xC9C0] @ str '' '' @ [0xAE30, 0xD68D] @ str '' ''
     @ [0xC0DD, 0xC131] @ str '' '' @ [0xC2E4, 0xD328]"

definition MSG_NOT_JSON :: jsstring where
  "MSG_NOT_JSON =
     [0xAE30, 0xD68D] @ str '' '' @ [0xC0DD, 0xC131] @ str '' '' @ [0xC2E4, 0xD328]
     @ str '': JSON '' @ [0xD615, 0xC2DD, 0xC774] @ str '' '' @ [0xC544, 0xB2D9, 0xB2C8, 0xB2E4]"

record plan_env =
  plan_apiKey :: "jsstring option"
  plan_fetch :: fetch_result
  JSON_parse :: "jsstring \<Rightarrow> js_error + jsval"

text \<open>
  \<open>JSON_parse\<close> stands for the built-in \<^verbatim>\<open>JSON.parse\<close>: the theorems hold for every
  parser, and the concrete instances use one that is right on the text it is given.
\<close>

definition responseText :: "jsval \<Rightarrow> js_error + jsval" where
  \<comment> \<open>\<^verbatim>\<open>data.candidates?.[0]?.content?.parts?.[0]?.text || ''\<close>\<close>
  "responseText data =
     (case getProp data (str ''candidates'') of
        Inl e \<Rightarrow> Inl e
      | Inr candidates \<Rightarrow>
          Inr (orElse
                 (optProp (optProp (optProp (optProp (optProp candidates (str ''0''))
                    (str ''content'')) (str ''parts'')) (str ''0'')) (str ''text''))
                 (JStr [])))"

definition matchJsonObject :: "jsstring \<Rightarrow> jsstring option" where
  \<comment> \<open>\<^verbatim>\<open>text.match(/\{[\s\S]*\}/)\<close>: from the first \<^verbatim>\<open>{\<close> to the last \<^verbatim>\<open>}\<close> after it.\<close>
  "matchJsonObject t =
     (let fromBrace = dropWhile (\<lambda>c. c \<noteq> 123) t;
          m = rev (dropWhile (\<lambda>c. c \<noteq> 125) (rev fromBrace))
      in if m = [] then None else Some m)"

definition toSection :: "nat \<Rightarrow> jsval \<Rightarrow> js_error + DetailSection" where
  \<comment> \<open>The callback of \<^verbatim>\<open>parsed.sections.map\<close>; reading a field of a \<^verbatim>\<open>null\<close> entry throws.\<close>
  "toSection idx section =
     (if nullish section then Inl TypeError
      else Inr \<lparr>
        section_id = str ''section-'' @ numberToString (int idx + 1),
        section_order = orElse (optProp section (str ''order'')) (JNum (int idx + 1)),
        logicType = optProp section (str ''logicType''),
        title = optProp section (str ''title''),
        keyMessage = optProp section (str ''keyMessage''),
        subMessage = optProp section (str ''subMessage''),
        visualPrompt = optProp section (str ''visualPrompt''),
        imageUrl = JUndefined,
        isGenerating = Some False,
        textPosition = orElse (optProp section (str ''textPosition'')) (JStr (str ''center'')),
        textStyle = orElse (optProp section (str ''textStyle'')) (JStr (str ''light''))
      \<rparr>)"

fun mapSections :: "nat \<Rightarrow> jsval list \<Rightarrow> js_error + DetailSection list" where
  \<comment> \<open>\<^verbatim>\<open>Array.prototype.map\<close> with the index; the first callback that throws ends it.\<close>
  "mapSections idx [] = Inr []"
| "mapSections idx (x # xs) =
     (case toSection idx x of
        Inl e \<Rightarrow> Inl e
      | Inr s \<Rightarrow> (case mapSections (Suc idx) xs of Inl e \<Rightarrow> Inl e | Inr ss \<Rightarrow> Inr (s # ss)))"

definition responseSections :: "plan_env \<Rightarrow> js_error + jsval" where
  \<comment> \<open>\<^verbatim>\<open>planDetailPage\<close> from the \<^verbatim>\<open>fetch\<close> to \<^verbatim>\<open>parsed.sections\<close>\<close>
  "responseSections env =
     (case plan_fetch env of
        FetchRejected e \<Rightarrow> Inl e
      | FetchResolved response \<Rightarrow>
          if \<not> ok response then
            (case text_body response of Inl e \<Rightarrow> Inl e | Inr error \<Rightarrow> Inl (Error MSG_PLAN_FAILED))
          else
            (case json response of
               Inl e \<Rightarrow> Inl e
             | Inr data \<Rightarrow>
                 (case responseText data of
                    Inl e \<Rightarrow> Inl e
                  | Inr (JStr t) \<Rightarrow>
                      (case matchJsonObject t of
                         None \<Rightarrow> Inl (Error MSG_NOT_JSON)
                       | Some jsonMatch \<Rightarrow>
                           (case JSON_parse env jsonMatch of
                              Inl e \<Rightarrow> Inl e
                            | Inr parsed \<Rightarrow> getProp parsed (str ''sections'')))
                  | Inr other \<Rightarrow> Inl TypeError)))"

definition planDetailPage :: "ProductData \<Rightarrow> plan_env \<Rightarrow> js_error + DetailSection list" where
  \<comment> \<open>Only an array has a \<^verbatim>\<open>map\<close> method among the values \<^verbatim>\<open>JSON.parse\<close> returns.\<close>
  "planDetailPage productData env =
     (case getNanoBananaApiKey (plan_apiKey env) of
        Inl e \<Rightarrow> Inl e
      | Inr apiKey \<Rightarrow>
          (case responseSections env of
             Inl e \<Rightarrow> Inl e
           | Inr (JArr entries) \<Rightarrow> mapSections 0 entries
           | Inr other \<Rightarrow> Inl TypeError))"

section \<open>cloudinaryService.ts: the image store\<close>

text \<open>
  The upload request rejects, or resolves to a response that is not \<^verbatim>\<open>ok\<close> (with its
  status and what \<^verbatim>\<open>json()\<close> gives for the error body), or to an \<^verbatim>\<open>ok\<close> response with
  what \<^verbatim>\<open>json()\<close> gives for it. The interface \<^verbatim>\<open>CloudinaryResponse\<close> only annotates that
  body: nothing checks it at run time, so the body is a \<open>jsval\<close>.
\<close>

datatype upload_result =
    UploadRejected js_error
  | UploadNotOk nat "js_error + jsval"
  | UploadOk "js_error + jsval"

definition MSG_SVG_UPLOAD :: jsstring where
  "MSG_SVG_UPLOAD =
     str ''SVG '' @ [0xC774, 0xBBF8, 0xC9C0, 0xB294] @ str '' '' @ [0xC5C5, 0xB85C, 0xB4DC, 0xD560]
     @ str '' '' @ [0xC218] @ str '' '' @ [0xC5C6, 0xC2B5, 0xB2C8, 0xB2E4] @ str ''.''"

definition isWordChar :: "nat \<Rightarrow> bool" where
  \<comment> \<open>\<^verbatim>\<open>\w\<close>\<close>
  "isWordChar c =
     ((48 \<le> c \<and> c \<le> 57) \<or> (65 \<le> c \<and> c \<le> 90) \<or> c = 95 \<or> (97 \<le> c \<and> c \<le> 122))"

definition stripDataUrlHeader :: "jsstring \<Rightarrow> jsstring" where
  \<comment> \<open>\<^verbatim>\<open>base64Image.replace(/^data:image\/\w+;base64,/, '')\<close>\<close>
  "stripDataUrlHeader img =
     (if \<not> prefix (str ''data:image/'') img then img
      else let rest = drop 11 img;
               w = takeWhile isWordChar rest;
               rest' = dropWhile isWordChar rest
           in if w = [] \<or> \<not> prefix (str '';base64,'') rest' then img else drop 8 rest')"

definition errorBody :: "js_error + jsval \<Rightarrow> jsval" where
  \<comment> \<open>\<^verbatim>\<open>await response.json().catch(() => ({}))\<close>\<close>
  "errorBody body = (case body of Inl e \<Rightarrow> JObj [] | Inr v \<Rightarrow> v)"

definition uploadToCloudinary :: "jsstring \<Rightarrow> jsstring \<Rightarrow> upload_result \<Rightarrow> js_error + jsval" where
  \<comment> \<open>The \<^verbatim>\<open>catch\<close> around the request logs the error and throws it again. The blob type
      and the form fields are part of the request and not represented. The result is
      \<^verbatim>\<open>data.secure_url\<close>, whatever the body holds there.\<close>
  "uploadToCloudinary base64Image folder upload =
     (if startsWith base64Image (str ''http'') then Inr (JStr base64Image)
      else if includesStr base64Image (str ''image/svg+xml'') then Inl (Error MSG_SVG_UPLOAD)
      else if startsWith base64Image (str ''data:'')
              \<and> \<not> atobAccepts (stripDataUrlHeader base64Image)
      then Inl InvalidCharacterError
      else
        (case upload of
           UploadRejected e \<Rightarrow> Inl e
         | UploadNotOk st body \<Rightarrow>
             (case getProp (errorBody body) (str ''error'') of
                Inl e \<Rightarrow> Inl e
              | Inr err \<Rightarrow>
                  (case toString
                          (orElse (optProp err (str ''message''))
                             (JStr (str ''Cloudinary upload failed: '' @ numberToString (int st)))) of
                     Inl e \<Rightarrow> Inl e
                   | Inr msg \<Rightarrow> Inl (Error msg)))
         | UploadOk (Inl e) \<Rightarrow> Inl e
         | UploadOk (Inr data) \<Rightarrow> getProp data (str ''secure_url'')))"

definition uploadOrKeepInline :: "jsstring \<Rightarrow> upload_result \<Rightarrow> jsval" where
  \<comment> \<open>Lines 129 to 135 of \<^verbatim>\<open>generateImageWithAPIYI\<close>: the upload inside \<^verbatim>\<open>try\<close>, and the
      \<^verbatim>\<open>catch\<close> that returns the inline image.\<close>
  "uploadOrKeepInline base64Image upload =
     (case uploadToCloudinary base64Image (str ''generated-images'') upload of
        Inr cloudinaryUrl \<Rightarrow> cloudinaryUrl
      | Inl uploadError \<Rightarrow> JStr base64Image)"

section \<open>geminiService.ts: one image request\<close>

record image_env =
  apiKey :: "jsstring option"
  apiyi :: fetch_result
  cloudinary :: upload_result

definition MSG_API_ERROR_PREFIX :: jsstring where
  "MSG_API_ERROR_PREFIX = str ''APIYI API '' @ [0xC624, 0xB958] @ str '': ''"

definition MSG_NO_IMAGE :: jsstring where
  "MSG_NO_IMAGE =
     str ''APIYI '' @ [0xC751, 0xB2F5, 0xC5D0] @ str '' '' @ [0xC774, 0xBBF8, 0xC9C0, 0xAC00]
     @ str '' '' @ [0xC5C6, 0xC2B5, 0xB2C8, 0xB2E4] @ str ''.''"

definition MSG_PARTS_EMPTY :: jsstring where
  "MSG_PARTS_EMPTY =
     str ''APIYI '' @ [0xC751, 0xB2F5] @ str '' '' @ [0xD30C, 0xC2F1] @ str '' ''
     @ [0xC2E4, 0xD328] @ str '': parts'' @ [0xAC00] @ str '' ''
     @ [0xBE44, 0xC5B4, 0xC788, 0xC2B5, 0xB2C8, 0xB2E4] @ str ''.''"

definition MSG_NO_IMAGE_DATA :: jsstring where
  "MSG_NO_IMAGE_DATA =
     str ''APIYI '' @ [0xC751, 0xB2F5, 0xC5D0, 0xC11C] @ str '' '' @ [0xC774, 0xBBF8, 0xC9C0]
     @ str '' '' @ [0xB370, 0xC774, 0xD130, 0xB97C] @ str '' '' @ [0xCC3E, 0xC744] @ str '' ''
     @ [0xC218] @ str '' '' @ [0xC5C6, 0xC2B5, 0xB2C8, 0xB2E4] @ str ''.''"

definition MSG_TIMEOUT :: jsstring where
  "MSG_TIMEOUT =
     [0xC774, 0xBBF8, 0xC9C0] @ str '' '' @ [0xC0DD, 0xC131] @ str '' '' @ [0xC2DC, 0xAC04]
     @ str '' '' @ [0xCD08, 0xACFC] @ str '' (90'' @ [0xCD08] @ str '')''"

fun checkReferenceImages :: "jsstring list \<Rightarrow> js_error + unit" where
  \<comment> \<open>The loop over the reference images: each one that starts with \<^verbatim>\<open>data:\<close> goes
      through \<^verbatim>\<open>ensureSupportedImage\<close>, which may throw. The parts pushed are part of the
      request.\<close>
  "checkReferenceImages [] = Inr ()"
| "checkReferenceImages (img # imgs) =
     (if startsWith img (str ''data:'')
      then (case ensureSupportedImage img of
              Inl e \<Rightarrow> Inl e
            | Inr supported \<Rightarrow> checkReferenceImages imgs)
      else checkReferenceImages imgs)"

definition apiErrorMessage :: "jsval \<Rightarrow> nat \<Rightarrow> js_error + jsval" where
  \<comment> \<open>\<^verbatim>\<open>errorData.error?.message || errorData.message || `HTTP ${response.status}`\<close>\<close>
  "apiErrorMessage errorData st =
     (case getProp errorData (str ''error'') of
        Inl e \<Rightarrow> Inl e
      | Inr err \<Rightarrow>
          Inr (orElse (optProp err (str ''message''))
                 (orElse (optProp errorData (str ''message''))
                    (JStr (str ''HTTP '' @ numberToString (int st))))))"

definition rejectNotOk :: "http_response \<Rightarrow> js_error" where
  \<comment> \<open>Lines 92 to 105: what is thrown for a response that is not \<^verbatim>\<open>ok\<close>. A message that
      is not a string has no \<^verbatim>\<open>toLowerCase\<close>.\<close>
  "rejectNotOk response =
     (case apiErrorMessage (errorBody (json response)) (status response) of
        Inl e \<Rightarrow> e
      | Inr (JStr errorMessage) \<Rightarrow>
          if includesStr (toLowerCase errorMessage) (str ''insufficient'')
             \<or> includesStr (toLowerCase errorMessage) (str ''quota'')
             \<or> includesStr (toLowerCase errorMessage) (str ''billing'')
             \<or> status response = 429
          then Error CREDITS_INSUFFICIENT
          else Error (MSG_API_ERROR_PREFIX @ errorMessage)
      | Inr other \<Rightarrow> TypeError)"

definition iterate :: "jsval \<Rightarrow> js_error + jsval list" where
  \<comment> \<open>What \<^verbatim>\<open>for (const part of v)\<close> runs over: the elements of an array, the characters
      of a string; anything else a response can hold is not iterable.\<close>
  "iterate v =
     (case v of
        JArr xs \<Rightarrow> Inr xs
      | JStr s \<Rightarrow> Inr (map (\<lambda>c. JStr [c]) s)
      | _ \<Rightarrow> Inl TypeError)"

fun firstInlineImage :: "jsval list \<Rightarrow> upload_result \<Rightarrow> js_error + jsval" where
  \<comment> \<open>The loop of lines 121 to 139: the first part with inline data is uploaded and
      returned; a \<^verbatim>\<open>null\<close> part throws; so does a MIME type or data that the template
      literal of line 125 cannot convert to a string; no part with inline data throws
      after the loop.\<close>
  "firstInlineImage [] upload = Inl (Error MSG_NO_IMAGE_DATA)"
| "firstInlineImage (part # rest) upload =
     (if nullish part then Inl TypeError
      else
        let inlineData = orElse (optProp part (str ''inlineData''))
                           (optProp part (str ''inline_data''))
        in if truthy inlineData \<and> truthy (optProp inlineData (str ''data''))
           then
             let mimeType = orElse (optProp inlineData (str ''mimeType''))
                              (orElse (optProp inlineData (str ''mime_type''))
                                 (JStr (str ''image/png'')))
             in (case toString mimeType of
                   Inl e \<Rightarrow> Inl e
                 | Inr mimeText \<Rightarrow>
                     (case toString (optProp inlineData (str ''data'')) of
                        Inl e \<Rightarrow> Inl e
                      | Inr dataText \<Rightarrow>
                          Inr (uploadOrKeepInline
                                 (str ''data:'' @ mimeText @ str '';base64,'' @ dataText)
                                 upload)))
           else firstInlineImage rest upload)"

definition extractImage :: "jsval \<Rightarrow> upload_result \<Rightarrow> js_error + jsval" where
  \<comment> \<open>Lines 107 to 139, for the body \<^verbatim>\<open>data\<close> of an \<^verbatim>\<open>ok\<close> response.\<close>
  "extractImage data upload =
     (case getProp data (str ''candidates'') of
        Inl e \<Rightarrow> Inl e
      | Inr candidates \<Rightarrow>
          if \<not> truthy candidates \<or> optProp candidates (str ''length'') = JNum 0
          then Inl (Error MSG_NO_IMAGE)
          else
            (case getProp (optProp candidates (str ''0'')) (str ''content'') of
               Inl e \<Rightarrow> Inl e
             | Inr content \<Rightarrow>
                 let contentParts = optProp content (str ''parts'')
                 in if \<not> truthy contentParts \<or> optProp contentParts (str ''length'') = JNum 0
                    then Inl (Error MSG_PARTS_EMPTY)
                    else (case iterate contentParts of
                            Inl e \<Rightarrow> Inl e
                          | Inr parts \<Rightarrow> firstInlineImage parts upload)))"

definition rethrow :: "js_error \<Rightarrow> js_error" where
  \<comment> \<open>The \<^verbatim>\<open>catch\<close> of lines 141 to 147\<close>
  "rethrow error = (if err_name error = str ''AbortError'' then Error MSG_TIMEOUT else error)"

definition generateImageWithAPIYI :: "jsstring list \<Rightarrow> image_env \<Rightarrow> js_error + jsval" where
  \<comment> \<open>The arguments \<^verbatim>\<open>prompt\<close>, \<^verbatim>\<open>resolution\<close>, \<^verbatim>\<open>aspectRatio\<close> and \<^verbatim>\<open>isProModel\<close> only
      shape the request. At most the first three reference images are looked at.\<close>
  "generateImageWithAPIYI referenceImages env =
     (case getNanoBananaApiKey (apiKey env) of
        Inl e \<Rightarrow> Inl e
      | Inr key \<Rightarrow>
          (case checkReferenceImages (take (min (length referenceImages) 3) referenceImages) of
             Inl e \<Rightarrow> Inl e
           | Inr u \<Rightarrow>
               (case (case apiyi env of
                        FetchRejected e \<Rightarrow> Inl e
                      | FetchResolved response \<Rightarrow>
                          if \<not> ok response then Inl (rejectNotOk response)
                          else (case json response of
                                  Inl e \<Rightarrow> Inl e
                                | Inr data \<Rightarrow> extractImage data (cloudinary env)))
                of Inl error \<Rightarrow> Inl (rethrow error)
                 | Inr url \<Rightarrow> Inr url)))"

section \<open>geminiService.ts: section images, thumbnail, the whole page\<close>

definition mainReferenceImages :: "ProductData \<Rightarrow> jsstring list" where
  \<comment> \<open>The same lines in \<^verbatim>\<open>generateSectionImage\<close> and \<^verbatim>\<open>generateThumbnail\<close>: the first
      product image, when it is inline.\<close>
  "mainReferenceImages productData =
     (case images productData of
        [] \<Rightarrow> []
      | mainImage # _ \<Rightarrow> if startsWith mainImage (str ''data:'') then [mainImage] else [])"

definition fallbackUnlessCredits :: "js_error \<Rightarrow> js_error + jsval" where
  \<comment> \<open>The \<^verbatim>\<open>catch\<close> of \<^verbatim>\<open>generateSectionImage\<close> and of \<^verbatim>\<open>generateThumbnail\<close>: the credit
      error is thrown again, any other error is answered with \<^verbatim>\<open>getFallbackImage()\<close>,
      which returns or throws itself.\<close>
  "fallbackUnlessCredits error =
     (if err_message error = CREDITS_INSUFFICIENT then Inl error
      else case getFallbackImage of Inl e \<Rightarrow> Inl e | Inr img \<Rightarrow> Inr (JStr img))"

definition generateSectionImage ::
  "DetailSection \<Rightarrow> ProductData \<Rightarrow> jsstring option \<Rightarrow> image_env \<Rightarrow> js_error + jsval" where
  \<comment> \<open>The prompt is put together before the \<^verbatim>\<open>try\<close> (lines 294 to 317): of the values
      it prints, \<^verbatim>\<open>section.visualPrompt\<close> comes from the planning response and may not
      convert to a string, in which case the function throws before any request and
      outside its own \<^verbatim>\<open>catch\<close>. The prompt itself only shapes the request. The
      parameter \<^verbatim>\<open>referenceImage\<close> is not used by the source either.\<close>
  "generateSectionImage section productData referenceImage env =
     (case toString (visualPrompt section) of
        Inl e \<Rightarrow> Inl e
      | Inr visualText \<Rightarrow>
          (case generateImageWithAPIYI (mainReferenceImages productData) env of
             Inr url \<Rightarrow> Inr url
           | Inl error \<Rightarrow> fallbackUnlessCredits error))"

definition generateThumbnail :: "ProductData \<Rightarrow> image_env \<Rightarrow> js_error + jsval" where
  \<comment> \<open>The prompt prints fields of the product and of the thumbnail settings only, which
      are strings and booleans.\<close>
  "generateThumbnail productData env =
     (case generateImageWithAPIYI (mainReferenceImages productData) env of
        Inr url \<Rightarrow> Inr url
      | Inl error \<Rightarrow> fallbackUnlessCredits error)"

definition firstImage :: "ProductData \<Rightarrow> jsstring option" where
  \<comment> \<open>\<^verbatim>\<open>productData.images[0]\<close>\<close>
  "firstImage productData = (case images productData of [] \<Rightarrow> None | img # _ \<Rightarrow> Some img)"

definition sectionTask :: "DetailSection \<Rightarrow> ProductData \<Rightarrow> image_env \<Rightarrow> js_error + DetailSection" where
  \<comment> \<open>The asynchronous callback of \<^verbatim>\<open>sections.map\<close> in \<^verbatim>\<open>generateFullDetailPage\<close>. Its
      \<^verbatim>\<open>catch\<close> takes every error and first logs
      \<^verbatim>\<open>`Section ${section.order} generation failed:`\<close>; when \<^verbatim>\<open>section.order\<close> cannot be
      converted to a string the template literal throws inside the \<^verbatim>\<open>catch\<close> and the
      callback rejects.\<close>
  "sectionTask section productData env =
     (case generateSectionImage section productData (firstImage productData) env of
        Inr url \<Rightarrow> Inr (section\<lparr>imageUrl := url, isGenerating := Some False\<rparr>)
      | Inl error \<Rightarrow>
          (case toString (section_order section) of
             Inl e \<Rightarrow> Inl e
           | Inr orderText \<Rightarrow> Inr (section\<lparr>isGenerating := Some False\<rparr>)))"

definition thumbnailTask :: "ProductData \<Rightarrow> image_env \<Rightarrow> js_error + Thumbnail option" where
  \<comment> \<open>\<^verbatim>\<open>thumbnailPromise\<close>; its \<^verbatim>\<open>.catch\<close> turns every error into \<^verbatim>\<open>undefined\<close>.\<close>
  "thumbnailTask productData env =
     (case thumbnailConfig productData of
        None \<Rightarrow> Inr None
      | Some config \<Rightarrow>
          (case generateThumbnail productData env of
             Inr url \<Rightarrow>
               Inr (Some \<lparr>thumbnailUrl = url,
                          thumbnailPrompt = name productData @ str '' thumbnail''\<rparr>)
           | Inl error \<Rightarrow> Inr None))"

fun promiseAll :: "(js_error + 'a) list \<Rightarrow> js_error + 'a list" where
  \<comment> \<open>\<^verbatim>\<open>Promise.all\<close>: all the values in the order of the promises, or a rejection. Which
      rejection wins depends on time; the first in the list is taken here. The promises
      it is applied to below reject with a \<^verbatim>\<open>TypeError\<close> only.\<close>
  "promiseAll [] = Inr []"
| "promiseAll (Inl e # ps) = Inl e"
| "promiseAll (Inr x # ps) = (case promiseAll ps of Inl e \<Rightarrow> Inl e | Inr xs \<Rightarrow> Inr (x # xs))"

record page_env =
  planning :: plan_env
  section_env :: "nat \<Rightarrow> image_env"
  thumbnail_env :: image_env

text \<open>
  \<open>section_env env i\<close> is what the network does for the request of the section at
  position \<open>i\<close>. The progress callback only reports and is not represented.
\<close>

definition imagePromises :: "DetailSection list \<Rightarrow> ProductData \<Rightarrow> page_env \<Rightarrow> (js_error + DetailSection) list" where
  "imagePromises secs productData env =
     map (\<lambda>(i, section). sectionTask section productData (section_env env i))
       (enumerate 0 secs)"

definition generateFullDetailPage :: "ProductData \<Rightarrow> page_env \<Rightarrow> js_error + GeneratedDetailPage" where
  "generateFullDetailPage productData env =
     (case planDetailPage productData (planning env) of
        Inl e \<Rightarrow> Inl e
      | Inr secs \<Rightarrow>
          (case promiseAll (imagePromises secs productData env) of
             Inl e \<Rightarrow> Inl e
           | Inr generatedSections \<Rightarrow>
               (case thumbnailTask productData (thumbnail_env env) of
                  Inl e \<Rightarrow> Inl e
                | Inr thumb \<Rightarrow> Inr \<lparr>sections = generatedSections, thumbnail = thumb\<rparr>)))"

definition regenerateSection :: "DetailSection \<Rightarrow> ProductData \<Rightarrow> image_env \<Rightarrow> js_error + jsval" where
  "regenerateSection section productData env =
     generateSectionImage section productData (firstImage productData) env"

section \<open>App.tsx: the page state and the regeneration of one section\<close>

datatype Step = Input | Processing | Preview

record GeneratedImage =
  url :: jsstring
  prompt :: jsstring

record GeneratedCopy =
  catchphrase :: jsstring
  headline :: jsstring
  emotionalBenefit :: jsstring
  solution :: jsstring

record GenerationProgress =
  current :: int
  total :: int
  message :: jsstring

text \<open>
  Of \<^verbatim>\<open>GeneratedCopy\<close> only the plain text fields are kept; the handlers below do not read
  the copy at all.
\<close>

record AppState =
  step :: Step
  productData :: ProductData
  originalImages :: "jsstring list"
  generatedImages :: "GeneratedImage list"
  mainImageIndex :: nat
  generatedCopy :: "GeneratedCopy option"
  generatedPage :: "GeneratedDetailPage option"
  isEditingImage :: bool
  generationProgress :: "GenerationProgress option"

definition updateSections :: "(DetailSection \<Rightarrow> DetailSection) \<Rightarrow> AppState \<Rightarrow> AppState" where
  \<comment> \<open>The shape shared by the state updates of \<^verbatim>\<open>handleSectionRegenerate\<close> and
      \<^verbatim>\<open>onSectionUpdate\<close>:
      \<^verbatim>\<open>{...prev, generatedPage: prev.generatedPage ? {...prev.generatedPage, sections: prev.generatedPage.sections.map(f)} : null}\<close>\<close>
  "updateSections f prev =
     prev\<lparr>generatedPage :=
       (case generatedPage prev of
          Some page \<Rightarrow> Some (page\<lparr>sections := map f (sections page)\<rparr>)
        | None \<Rightarrow> None)\<rparr>"

definition markGenerating :: "jsstring \<Rightarrow> AppState \<Rightarrow> AppState" where
  \<comment> \<open>\<^verbatim>\<open>s.id === sectionId ? { ...s, isGenerating: true } : s\<close>\<close>
  "markGenerating sectionId =
     updateSections (\<lambda>s. if section_id s = sectionId then s\<lparr>isGenerating := Some True\<rparr> else s)"

definition storeImage :: "jsstring \<Rightarrow> jsval \<Rightarrow> AppState \<Rightarrow> AppState" where
  \<comment> \<open>\<^verbatim>\<open>s.id === sectionId ? { ...s, imageUrl: newImageUrl, isGenerating: false } : s\<close>\<close>
  "storeImage sectionId newImageUrl =
     updateSections (\<lambda>s. if section_id s = sectionId
                         then s\<lparr>imageUrl := newImageUrl, isGenerating := Some False\<rparr>
                         else s)"

definition clearGenerating :: "jsstring \<Rightarrow> AppState \<Rightarrow> AppState" where
  \<comment> \<open>\<^verbatim>\<open>s.id === sectionId ? { ...s, isGenerating: false } : s\<close>\<close>
  "clearGenerating sectionId =
     updateSections (\<lambda>s. if section_id s = sectionId then s\<lparr>isGenerating := Some False\<rparr> else s)"

definition replaceImage :: "jsstring \<Rightarrow> jsstring \<Rightarrow> AppState \<Rightarrow> AppState" where
  \<comment> \<open>The update of \<^verbatim>\<open>onSectionUpdate\<close>:
      \<^verbatim>\<open>s.id === sectionId ? { ...s, imageUrl: newImageUrl } : s\<close>\<close>
  "replaceImage sectionId newImageUrl =
     updateSections (\<lambda>s. if section_id s = sectionId then s\<lparr>imageUrl := JStr newImageUrl\<rparr> else s)"

datatype alert = AlertCreditsInsufficient | AlertRegenerateFailed

record handler_result =
  trace :: "AppState list"
  alerted :: "alert option"

text \<open>
  A handler is run from a state with no other update in between; \<open>trace\<close> lists the
  state after each \<^verbatim>\<open>setState\<close> of the handler, in order, and is empty when the handler
  returns before its first update. \<open>alerted\<close> is the alert it shows.
\<close>

definition handleSectionRegenerate :: "AppState \<Rightarrow> jsstring \<Rightarrow> image_env \<Rightarrow> handler_result" where
  "handleSectionRegenerate state sectionId env =
     (case generatedPage state of
        None \<Rightarrow> \<lparr>trace = [], alerted = None\<rparr>
      | Some page \<Rightarrow>
          (case find (\<lambda>s. section_id s = sectionId) (sections page) of
             None \<Rightarrow> \<lparr>trace = [], alerted = None\<rparr>
           | Some section \<Rightarrow>
               let marked = markGenerating sectionId state
               in (case regenerateSection section (productData state) env of
                     Inr newImageUrl \<Rightarrow>
                       \<lparr>trace = [marked, storeImage sectionId newImageUrl marked],
                        alerted = None\<rparr>
                   | Inl error \<Rightarrow>
                       \<lparr>trace = [marked, clearGenerating sectionId marked],
                        alerted = Some (if err_message error = CREDITS_INSUFFICIENT
                                        then AlertCreditsInsufficient
                                        else AlertRegenerateFailed)\<rparr>)))"

definition onSectionUpdate :: "AppState \<Rightarrow> jsstring \<Rightarrow> jsstring \<Rightarrow> image_env \<Rightarrow> handler_result" where
  "onSectionUpdate state sectionId newImageUrl env =
     (if newImageUrl = [] then handleSectionRegenerate state sectionId env
      else \<lparr>trace = [replaceImage sectionId newImageUrl state], alerted = None\<rparr>)"

definition finalState :: "AppState \<Rightarrow> handler_result \<Rightarrow> AppState" where
  \<comment> \<open>The state once the handler is done.\<close>
  "finalState state r = last (state # trace r)"

section \<open>categoryThemes: text styles\<close>

datatype Alignment = AlignLeft | AlignCenter | AlignRight

record TextStyleConfig =
  mainSize :: jsstring
  mainWeight :: jsstring
  mainStyle :: jsstring
  mainSpacing :: jsstring
  subSize :: jsstring
  subWeight :: jsstring
  subStyle :: jsstring
  alignment :: Alignment
  verticalPosition :: TextPosition
  padding :: jsstring
  gap :: jsstring
  showBadge :: bool
  badgeText :: "jsstring option"
  animation :: "jsstring option"
  decoration :: "jsstring option"

definition LOGIC_TYPE_STYLES :: "(jsstring \<times> TextStyleConfig) list" where
  \<comment> \<open>The own properties of the object literal, in its order.\<close>
  \<open>LOGIC_TYPE_STYLES =
    [(str ''hook'',
      \<lparr>mainSize = str ''text-3xl md:text-5xl lg:text-6xl'', mainWeight = str ''font-black'',
       mainStyle = [], mainSpacing = str ''tracking-tight'',
       subSize = str ''text-lg md:text-xl'', subWeight = str ''font-medium'', subStyle = [],
       alignment = AlignCenter, verticalPosition = Center, padding = str ''p-8 md:p-12'',
       gap = str ''mt-4 md:mt-6'', showBadge = False, badgeText = None, animation = None,
       decoration = Some (str ''underline decoration-4 underline-offset-8'')\<rparr>),
     (str ''solution'',
      \<lparr>mainSize = str ''text-2xl md:text-4xl'', mainWeight = str ''font-bold'',
       mainStyle = [], mainSpacing = str ''tracking-normal'',
       subSize = str ''text-base md:text-lg'', subWeight = str ''font-normal'', subStyle = [],
       alignment = AlignCenter, verticalPosition = Center, padding = str ''p-6 md:p-10'',
       gap = str ''mt-3 md:mt-4'', showBadge = True, badgeText = Some (str ''SOLUTION''),
       animation = None, decoration = None\<rparr>),
     (str ''clarity'',
      \<lparr>mainSize = str ''text-lg md:text-2xl'', mainWeight = str ''font-semibold'',
       mainStyle = [], mainSpacing = str ''tracking-wide'',
       subSize = str ''text-sm md:text-base'', subWeight = str ''font-normal'', subStyle = [],
       alignment = AlignLeft, verticalPosition = Bottom, padding = str ''p-4 md:p-6'',
       gap = str ''mt-2'', showBadge = True, badgeText = Some (str ''SPEC''),
       animation = None, decoration = None\<rparr>),
     (str ''socialProof'',
      \<lparr>mainSize = str ''text-xl md:text-3xl'', mainWeight = str ''font-light'',
       mainStyle = str ''italic'', mainSpacing = str ''tracking-normal'',
       subSize = str ''text-sm md:text-base'', subWeight = str ''font-medium'', subStyle = [],
       alignment = AlignCenter, verticalPosition = Bottom, padding = str ''p-8 md:p-12'',
       gap = str ''mt-4'', showBadge = False, badgeText = None, animation = None,
       decoration = Some (str ''before:content-["""] after:content-["""]'')\<rparr>),
     (str ''service'',
      \<lparr>mainSize = str ''text-xl md:text-3xl'', mainWeight = str ''font-bold'',
       mainStyle = [], mainSpacing = str ''tracking-normal'',
       subSize = str ''text-base md:text-lg'', subWeight = str ''font-normal'', subStyle = [],
       alignment = AlignCenter, verticalPosition = Top, padding = str ''p-6 md:p-8'',
       gap = str ''mt-3'', showBadge = True, badgeText = Some (str ''HOW TO''),
       animation = None, decoration = None\<rparr>),
     (str ''riskReversal'',
      \<lparr>mainSize = str ''text-xl md:text-2xl'', mainWeight = str ''font-semibold'',
       mainStyle = [], mainSpacing = str ''tracking-wide'',
       subSize = str ''text-sm md:text-base'', subWeight = str ''font-normal'', subStyle = [],
       alignment = AlignCenter, verticalPosition = Bottom, padding = str ''p-6 md:p-8'',
       gap = str ''mt-2'', showBadge = True,
       badgeText = Some ([0x2713] @ str '' GUARANTEE''), animation = None,
       decoration = None\<rparr>),
     (str ''brandStory'',
      \<lparr>mainSize = str ''text-2xl md:text-4xl'', mainWeight = str ''font-light'',
       mainStyle = [], mainSpacing = str ''tracking-widest'',
       subSize = str ''text-base md:text-lg'', subWeight = str ''font-light'',
       subStyle = str ''italic'',
       alignment = AlignCenter, verticalPosition = Center, padding = str ''p-10 md:p-16'',
       gap = str ''mt-6'', showBadge = False, badgeText = None, animation = None,
       decoration = None\<rparr>),
     (str ''comparison'',
      \<lparr>mainSize = str ''text-xl md:text-3xl'', mainWeight = str ''font-bold'',
       mainStyle = [], mainSpacing = str ''tracking-tight'',
       subSize = str ''text-sm md:text-base'', subWeight = str ''font-medium'', subStyle = [],
       alignment = AlignLeft, verticalPosition = Center, padding = str ''p-6 md:p-8'',
       gap = str ''mt-3'', showBadge = True, badgeText = Some (str ''VS''),
       animation = None, decoration = None\<rparr>)]\<close>

text \<open>
  \<^verbatim>\<open>LOGIC_TYPE_STYLES\<close> is an object literal, so \<^verbatim>\<open>LOGIC_TYPE_STYLES[logicType]\<close> looks
  through its own properties and then through those it inherits from
  \<^verbatim>\<open>Object.prototype\<close>. Each inherited one is a function or an object, hence truthy. The
  result of the lookup is therefore a descriptor, an inherited member, or \<^verbatim>\<open>undefined\<close>.
\<close>

definition OBJECT_PROTOTYPE_KEYS :: "jsstring list" where
  "OBJECT_PROTOTYPE_KEYS =
     [str ''constructor'', str ''hasOwnProperty'', str ''isPrototypeOf'',
      str ''propertyIsEnumerable'', str ''toLocaleString'', str ''toString'', str ''valueOf'',
      str ''__proto__'', str ''__defineGetter__'', str ''__defineSetter__'',
      str ''__lookupGetter__'', str ''__lookupSetter__'']"

datatype style_lookup = Descriptor TextStyleConfig | Inherited jsstring | Missing

definition lookupStyle :: "jsstring \<Rightarrow> style_lookup" where
  \<comment> \<open>\<^verbatim>\<open>LOGIC_TYPE_STYLES[key]\<close>\<close>
  "lookupStyle key =
     (case map_of LOGIC_TYPE_STYLES key of
        Some d \<Rightarrow> Descriptor d
      | None \<Rightarrow> if key \<in> set OBJECT_PROTOTYPE_KEYS then Inherited key else Missing)"

definition getTextStyle :: "jsstring \<Rightarrow> style_lookup" where
  \<comment> \<open>\<^verbatim>\<open>LOGIC_TYPE_STYLES[logicType] || LOGIC_TYPE_STYLES['solution']\<close>; only
      \<^verbatim>\<open>undefined\<close> is falsy among the results of the lookup.\<close>
  "getTextStyle role =
     (case lookupStyle role of
        Missing \<Rightarrow> lookupStyle (str ''solution'')
      | found \<Rightarrow> found)"

section \<open>DetailPagePreview.tsx: the HTML export\<close>

text \<open>
  \<^verbatim>\<open>App.tsx\<close> imports the preview from \<^verbatim>\<open>./components/DetailPagePreview\<close>; the component is
  the one at the head of that file (lines 1 to 509). Its \<^verbatim>\<open>handleCopyHTML\<close> clones the
  rendered preview area, removes the controls from the clone and walks it. It looks at
  node types, tag names, text and the \<^verbatim>\<open>src\<close> attribute of an image, so a DOM node is
  modelled with these: a text node with its text, or an element with its tag, its \<^verbatim>\<open>src\<close>
  attribute if it has one, and its child nodes. The tags are those that occur in the
  preview.
\<close>

datatype tag =
    TagDiv | TagSpan | TagH1 | TagH2 | TagP | TagImg | TagButton | TagInput | TagLabel
  | TagSvg | TagPath | TagTextarea

datatype node = TextNode jsstring | Element tag "jsstring option" "node list"

fun removeAll :: "tag \<Rightarrow> node \<Rightarrow> node"
  and removeAmong :: "tag \<Rightarrow> node list \<Rightarrow> node list" where
  \<comment> \<open>\<^verbatim>\<open>cloned.querySelectorAll(sel).forEach(e => e.remove())\<close>: every descendant element
      with that tag goes, with all that is below it.\<close>
  "removeAll sel (TextNode s) = TextNode s"
| "removeAll sel (Element t a kids) = Element t a (removeAmong sel kids)"
| "removeAmong sel [] = []"
| "removeAmong sel (TextNode s # ks) = TextNode s # removeAmong sel ks"
| "removeAmong sel (Element t a kids # ks) =
     (if t = sel then removeAmong sel ks
      else Element t a (removeAmong sel kids) # removeAmong sel ks)"

definition stripControls :: "node \<Rightarrow> node" where
  \<comment> \<open>\<^verbatim>\<open>['button','input','label','svg'].forEach(sel => ...)\<close>\<close>
  "stripControls cloned =
     foldl (\<lambda>n sel. removeAll sel n) cloned [TagButton, TagInput, TagLabel, TagSvg]"

fun textContent :: "node \<Rightarrow> jsstring"
  and textContents :: "node list \<Rightarrow> jsstring" where
  "textContent (TextNode s) = s"
| "textContent (Element t a kids) = textContents kids"
| "textContents [] = []"
| "textContents (k # ks) = textContent k @ textContents ks"

definition LABEL_EDIT :: jsstring where
  "LABEL_EDIT = [0xC218, 0xC815]"

definition LABEL_SAVE :: jsstring where
  "LABEL_SAVE = [0xC800, 0xC7A5]"

definition LABEL_LOAD :: jsstring where
  "LABEL_LOAD = [0xBD88, 0xB7EC, 0xC624, 0xAE30]"

definition LABEL_TRANSLATE :: jsstring where
  "LABEL_TRANSLATE = [0xBC88, 0xC5ED]"

definition HTML_OPEN :: jsstring where
  \<open>HTML_OPEN = str ''<div style="max-width:600px;margin:0 auto;padding:20px;font-family:''
    @ [0x27] @ str ''Malgun Gothic'' @ [0x27] @ str '',sans-serif;background:#fff;">''\<close>

definition imageMarkup :: "jsstring \<Rightarrow> jsstring" where
  \<open>imageMarkup src =
     str ''<div style="text-align:center;margin:20px 0;"><img src="'' @ src
     @ str ''" style="max-width:100%;height:auto;border-radius:8px;" /></div>''\<close>

definition h1Markup :: "jsstring \<Rightarrow> jsstring" where
  \<open>h1Markup t =
     str ''<h1 style="font-size:28px;font-weight:bold;text-align:center;margin:30px 0 20px;color:#1a1a1a;">''
     @ t @ str ''</h1>''\<close>

definition h2Markup :: "jsstring \<Rightarrow> jsstring" where
  \<open>h2Markup t =
     str ''<h2 style="font-size:24px;font-weight:bold;text-align:center;margin:25px 0 15px;color:#333;">''
     @ t @ str ''</h2>''\<close>

definition pMarkup :: "jsstring \<Rightarrow> jsstring" where
  \<open>pMarkup t =
     str ''<p style="font-size:16px;line-height:1.8;text-align:center;margin:12px 0;color:#555;">''
     @ t @ str ''</p>''\<close>

definition keepsText :: "jsstring \<Rightarrow> bool" where
  \<comment> \<open>The test of \<^verbatim>\<open>processNode\<close> on the trimmed text of a text node.\<close>
  "keepsText t =
     (t \<noteq> [] \<and> 2 < length t \<and> \<not> includesStr t LABEL_EDIT \<and> \<not> includesStr t LABEL_SAVE
      \<and> \<not> includesStr t LABEL_LOAD \<and> \<not> includesStr t (str ''100%'')
      \<and> \<not> includesStr t LABEL_TRANSLATE)"

definition keepsHeading :: "jsstring \<Rightarrow> bool" where
  \<comment> \<open>The test on the trimmed text of an \<^verbatim>\<open>h1\<close> or \<^verbatim>\<open>h2\<close>.\<close>
  "keepsHeading t = (t \<noteq> [] \<and> \<not> includesStr t LABEL_EDIT)"

definition keepsParagraph :: "jsstring \<Rightarrow> bool" where
  \<comment> \<open>The test on the trimmed text of a \<^verbatim>\<open>p\<close>.\<close>
  "keepsParagraph t =
     (t \<noteq> [] \<and> 5 < length t \<and> \<not> includesStr t LABEL_EDIT \<and> \<not> includesStr t LABEL_SAVE)"

definition keepsImage :: "jsstring option \<Rightarrow> bool" where
  \<comment> \<open>\<^verbatim>\<open>src && !src.includes('data:')\<close>, where \<open>None\<close> is the \<^verbatim>\<open>null\<close> that
      \<^verbatim>\<open>getAttribute\<close> gives for a missing attribute.\<close>
  "keepsImage a = (case a of None \<Rightarrow> False | Some src \<Rightarrow> src \<noteq> [] \<and> \<not> includesStr src (str ''data:''))"

fun processNode :: "node \<Rightarrow> jsstring"
  and processNodes :: "node list \<Rightarrow> jsstring" where
  "processNode (TextNode s) = (if keepsText (trim s) then trim s else [])"
| "processNode (Element t a kids) =
     (if t = TagImg then (if keepsImage a then imageMarkup (the a) else [])
      else if t = TagH1 then
        (if keepsHeading (trim (textContents kids)) then h1Markup (trim (textContents kids))
         else [])
      else if t = TagH2 then
        (if keepsHeading (trim (textContents kids)) then h2Markup (trim (textContents kids))
         else [])
      else if t = TagP then
        (if keepsParagraph (trim (textContents kids)) then pMarkup (trim (textContents kids))
         else [])
      else processNodes kids)"
| "processNodes [] = []"
| "processNodes (k # ks) = processNode k @ processNodes ks"

datatype copy_result = NotMounted | Copied jsstring | CopyFailed

definition handleCopyHTML :: "node option \<Rightarrow> bool \<Rightarrow> copy_result" where
  \<comment> \<open>\<open>el\<close> is \<^verbatim>\<open>detailPageRef.current\<close>; \<open>clipboardOk\<close>: the clipboard write resolves.
      \<open>Copied html\<close> is what lands on the clipboard, \<open>CopyFailed\<close> the alert of the
      \<^verbatim>\<open>catch\<close>. The loading notice is put up and taken down and is not represented.\<close>
  "handleCopyHTML el clipboardOk =
     (case el of
        None \<Rightarrow> NotMounted
      | Some e \<Rightarrow>
          if clipboardOk
          then Copied (HTML_OPEN @ processNode (stripControls e) @ str ''</div>'')
          else CopyFailed)"

section \<open>DetailPagePreview.tsx: the preview area\<close>

text \<open>
  The element that \<^verbatim>\<open>detailPageRef\<close> points at is what the component renders in lines 362
  to 506. JSX is read as React renders it: an element gives an element with the children
  in order; a string or a number among the children gives a text node of its own, also
  next to another one (\<^verbatim>\<open>{imageScale}%\<close> is two text nodes); \<^verbatim>\<open>false\<close>, \<^verbatim>\<open>null\<close>,
  \<^verbatim>\<open>undefined\<close> and the empty string give nothing. Class names, styles, \<^verbatim>\<open>alt\<close>,
  \<^verbatim>\<open>data-section\<close>, keys and event handlers do not reach what \<^verbatim>\<open>handleCopyHTML\<close> reads and
  are left out; so are the theme and the image scales of the preview, which only go into
  class names and styles.

  The inputs of the rendering that are not in the page state are collected in
  \<open>preview_env\<close>: \<^verbatim>\<open>Number.prototype.toLocaleString\<close>, which depends on the locale of the
  browser; the year of \<^verbatim>\<open>new Date()\<close>; the component \<^verbatim>\<open>Button\<close>, whose file is not among
  the sources, as a function from the properties it is given here (\<^verbatim>\<open>className\<close>,
  \<^verbatim>\<open>isLoading\<close>, \<^verbatim>\<open>disabled\<close> and the children) to what it renders; and the React state
  of the \<^verbatim>\<open>ImageFeedbackControl\<close> of each section, by section index.
\<close>

datatype jsnumber = Finite int | MinusZero | PlusInfinity | MinusInfinity | NotANumber

record control_state =
  isOpen :: bool
  editRequest :: jsstring
  isLoading :: bool
  isRegenerating :: bool
  imageScale :: int
  editablePrompt :: jsstring
  isEditingPrompt :: bool
  translatedPrompt :: jsstring
  isTranslating :: bool

text \<open>\<open>editRequest\<close> is the state \<^verbatim>\<open>prompt\<close> of the control.\<close>

record preview_env =
  toLocaleString :: "jsnumber \<Rightarrow> jsstring"
  currentYear :: int
  Button :: "jsstring \<Rightarrow> bool \<Rightarrow> bool \<Rightarrow> node list \<Rightarrow> node"
  controlState :: "nat \<Rightarrow> control_state"

definition element :: "tag \<Rightarrow> node list \<Rightarrow> node" where
  "element t kids = Element t None kids"

definition textChild :: "jsstring \<Rightarrow> node list" where
  \<comment> \<open>A string among the children of an element.\<close>
  "textChild s = (if s = [] then [] else [TextNode s])"

definition icon :: node where
  \<comment> \<open>Each \<^verbatim>\<open>svg\<close> of the controls holds one \<^verbatim>\<open>path\<close>.\<close>
  "icon = element TagSvg [element TagPath []]"

definition isText :: "jsval \<Rightarrow> bool" where
  "isText v = (case v of JStr s \<Rightarrow> True | JUndefined \<Rightarrow> True | _ \<Rightarrow> False)"

definition displayable :: "DetailSection \<Rightarrow> bool" where
  \<comment> \<open>The fields that the preview shows hold a string or are absent, as the type
      \<^verbatim>\<open>DetailSection\<close> declares.\<close>
  "displayable s =
     (isText (logicType s) \<and> isText (title s) \<and> isText (keyMessage s) \<and> isText (subMessage s)
      \<and> isText (visualPrompt s) \<and> isText (imageUrl s))"

definition shownText :: "jsval \<Rightarrow> jsstring" where
  \<comment> \<open>Of a field that is a string or absent: the string, empty when absent. The preview
      treats both the same way: \<^verbatim>\<open>v && ...\<close>, \<^verbatim>\<open>v ? ... : ...\<close>, \<^verbatim>\<open>v || ...\<close> and \<^verbatim>\<open>{v}\<close>
      do for \<^verbatim>\<open>undefined\<close> what they do for \<^verbatim>\<open>''\<close>.\<close>
  "shownText v = (case v of JStr s \<Rightarrow> s | _ \<Rightarrow> [])"

definition styleKey :: "jsval \<Rightarrow> jsstring" where
  \<comment> \<open>The property key that \<^verbatim>\<open>LOGIC_TYPE_STYLES[logicType]\<close> looks up for a
      \<^verbatim>\<open>logicType\<close> that is a string or absent.\<close>
  "styleKey v = (case v of JStr s \<Rightarrow> s | _ \<Rightarrow> str ''undefined'')"

definition badgeShown :: "style_lookup \<Rightarrow> bool" where
  \<comment> \<open>\<^verbatim>\<open>textStyle.showBadge\<close>, which is \<^verbatim>\<open>undefined\<close> on an inherited member\<close>
  "badgeShown st = (case st of Descriptor d \<Rightarrow> showBadge d | _ \<Rightarrow> False)"

definition badgeLabel :: "style_lookup \<Rightarrow> jsstring" where
  \<comment> \<open>\<^verbatim>\<open>textStyle.badgeText\<close>, empty when it is \<^verbatim>\<open>undefined\<close>\<close>
  "badgeLabel st =
     (case st of
        Descriptor d \<Rightarrow> (case badgeText d of Some b \<Rightarrow> b | None \<Rightarrow> [])
      | _ \<Rightarrow> [])"

definition ImageFeedbackControl :: "preview_env \<Rightarrow> DetailSection \<Rightarrow> nat \<Rightarrow> node" where
  \<comment> \<open>Lines 109 to 183\<close>
  "ImageFeedbackControl env section sectionIndex =
     (let st = controlState env sectionIndex in
      element TagDiv
        [if \<not> isOpen st then
           element TagDiv
             [element TagButton [icon, TextNode LABEL_EDIT],
              element TagButton [icon, TextNode LABEL_SAVE],
              element TagLabel [icon, TextNode LABEL_LOAD, element TagInput []],
              element TagDiv
                [element TagButton [TextNode (str ''-'')],
                 element TagSpan [TextNode (numberToString (imageScale st)), TextNode (str ''%'')],
                 element TagButton [TextNode (str ''+'')]]]
         else
           element TagDiv
             [element TagDiv
                [element TagSpan [TextNode ([0x2728] @ str '' AI '' @ [0xC774, 0xBBF8, 0xC9C0]
                  @ str '' '' @ [0xBD80, 0xBD84] @ str '' '' @ [0xC218, 0xC815])],
                 element TagButton [TextNode ([0x2715])]],
              element TagDiv
                ([element TagDiv
                    [element TagP [TextNode ([0xC0AC, 0xC6A9, 0xB41C] @ str '' ''
                      @ [0xD504, 0xB86C, 0xD504, 0xD2B8] @ str '':'')],
                     element TagButton
                       [TextNode (if isEditingPrompt st then [0xCDE8, 0xC18C]
                                  else [0x270F, 0xFE0F] @ str '' '' @ [0xC218, 0xC815])],
                     element TagButton
                       [TextNode (if isTranslating st then [0xBC88, 0xC5ED] @ str '' '' @ [0xC911]
                         @ str ''...''
                                  else [0xD83C, 0xDF10] @ str '' '' @ [0xBC88, 0xC5ED])]],
                  if isEditingPrompt st
                  then element TagTextarea (textChild (editablePrompt st))
                  else element TagP
                         [TextNode (if shownText (visualPrompt section) \<noteq> []
                                    then shownText (visualPrompt section)
                                    else [0xD504, 0xB86C, 0xD504, 0xD2B8] @ str '' ''
                                      @ [0xC815, 0xBCF4] @ str '' '' @ [0xC5C6, 0xC74C])]]
                 @ (if translatedPrompt st \<noteq> []
                    then [element TagDiv
                            [element TagP [TextNode ([0xD83C, 0xDDF0, 0xD83C, 0xDDF7] @ str '' ''
                              @ [0xD55C, 0xAD6D, 0xC5B4] @ str '' '' @ [0xBC88, 0xC5ED]
                              @ str '':'')],
                             element TagP [TextNode (translatedPrompt st)]]]
                    else [])),
              Button env
                (str ''w-full bg-gradient-to-r from-purple-600 to-blue-600 text-white py-2.5 px-4 rounded-lg font-medium hover:from-purple-700 hover:to-blue-700 transition-all flex items-center justify-center gap-2 mb-4'')
                (isRegenerating st) (isRegenerating st)
                [TextNode ([0xD83D, 0xDD04] @ str '' ''),
                 TextNode (if isEditingPrompt st then [0xC218, 0xC815, 0xB41C] @ str '' ''
                   @ [0xD504, 0xB86C, 0xD504, 0xD2B8, 0xB85C] @ str '' '' @ [0xC7AC, 0xC0DD, 0xC131]
                           else [0xB2E4, 0xC2DC] @ str '' '' @ [0xC0DD, 0xC131]
                             @ str '' (Re-roll)'')],
              element TagDiv [],
              element TagP [TextNode ([0xD83D, 0xDD8C, 0xFE0F] @ str '' AI ''
                @ [0xC774, 0xBBF8, 0xC9C0] @ str '' '' @ [0xD3B8, 0xC9D1] @ str '' ''
                @ [0xC694, 0xCCAD])],
              element TagTextarea (textChild (editRequest st)),
              Button env
                (str ''w-full py-1 text-sm h-8 bg-purple-600 hover:bg-purple-700 shadow-purple-500/30'')
                (isLoading st) (trim (editRequest st) = [])
                [TextNode ([0xC218, 0xC815] @ str '' '' @ [0xC2E4, 0xD589])]]])"

text \<open>
  A \<^verbatim>\<open>textarea\<close> that React controls holds its value as its text, which is what a clone
  of it carries.
\<close>

definition originalPrice :: "ProductData \<Rightarrow> jsnumber" where
  \<comment> \<open>Line 210:
      \<^verbatim>\<open>discountRate > 0 ? Math.floor(price * 100 / (100 - discountRate)) : price\<close>,
      for amounts that a double holds exactly. A discount of 100 divides by zero.\<close>
  "originalPrice product =
     (if 0 < discountRate product then
        (if discountRate product = 100 then
           (if 0 < price product then PlusInfinity
            else if price product < 0 then MinusInfinity
            else NotANumber)
         else if price product = 0 \<and> 100 < discountRate product then MinusZero
         else Finite ((price product * 100) div (100 - discountRate product)))
      else Finite (price product))"

definition HIDE_HEADER :: jsstring where "HIDE_HEADER = str ''header''"
definition HIDE_PRICING :: jsstring where "HIDE_PRICING = str ''pricing''"
definition HIDE_HERO :: jsstring where "HIDE_HERO = str ''hero''"
definition HIDE_FEATURES :: jsstring where "HIDE_FEATURES = str ''features''"
definition HIDE_USAGE :: jsstring where "HIDE_USAGE = str ''usage''"
definition HIDE_CTA :: jsstring where "HIDE_CTA = str ''cta''"
definition HIDE_FOOTER :: jsstring where "HIDE_FOOTER = str ''footer''"

definition priceText :: "preview_env \<Rightarrow> ProductData \<Rightarrow> node list" where
  \<comment> \<open>\<^verbatim>\<open>{price.toLocaleString()}\<close> among the children of an element\<close>
  "priceText env product = textChild (toLocaleString env (Finite (price product)))"

definition headerBlock :: "preview_env \<Rightarrow> ProductData \<Rightarrow> jsstring set \<Rightarrow> node list" where
  \<comment> \<open>Lines 365 to 391\<close>
  "headerBlock env product hiddenSections =
     (if HIDE_HEADER \<in> hiddenSections then []
      else
        [element TagDiv
           [element TagDiv
              ([element TagDiv
                  (if HIDE_PRICING \<in> hiddenSections then []
                   else
                     [element TagDiv
                        [element TagH1 (textChild (name product)),
                         element TagDiv
                           ((if 0 < discountRate product
                             then [element TagSpan
                                     [TextNode (numberToString (discountRate product)),
                                      TextNode (str ''%'')]]
                             else [])
                            @ [element TagSpan (priceText env product @ [TextNode ([0xC6D0])])]
                            @ (if 0 < discountRate product
                               then [element TagSpan
                                       (textChild (toLocaleString env (originalPrice product))
                                        @ [TextNode ([0xC6D0])])]
                               else []))]])]
               @ (if HIDE_PRICING \<in> hiddenSections then []
                  else
                    [element TagDiv
                       [element TagDiv
                          (map (\<lambda>s. element TagSpan [TextNode [s]]) ([0x2605, 0x2605, 0x2605, 0x2605, 0x2605])
                           @ [element TagSpan [TextNode (str ''(4.8)'')]]),
                        element TagP [TextNode ([0xB9AC, 0xBDF0] @ str '' 1,234''
                          @ [0xAC1C])]]]))]])"

definition spinner :: node where
  "spinner = element TagDiv [element TagDiv []]"

definition imageOf :: "DetailSection \<Rightarrow> node" where
  \<comment> \<open>\<^verbatim>\<open><img src={section.imageUrl} ... />\<close>, rendered for a non-empty string only\<close>
  "imageOf section = Element TagImg (Some (shownText (imageUrl section))) []"

definition hasImage :: "DetailSection \<Rightarrow> bool" where
  \<comment> \<open>\<^verbatim>\<open>section.imageUrl\<close> as a condition\<close>
  "hasImage section = (shownText (imageUrl section) \<noteq> [])"

definition generating :: "DetailSection \<Rightarrow> bool" where
  \<comment> \<open>\<^verbatim>\<open>section.isGenerating\<close> as a condition\<close>
  "generating section = (isGenerating section = Some True)"

definition heroBlock :: "preview_env \<Rightarrow> DetailSection list \<Rightarrow> jsstring set \<Rightarrow> node list" where
  \<comment> \<open>Lines 394 to 406\<close>
  "heroBlock env secs hiddenSections =
     (case secs of
        [] \<Rightarrow> []
      | first # _ \<Rightarrow>
          if HIDE_HERO \<in> hiddenSections then []
          else
            [element TagDiv
               ((if hasImage first
                 then [ImageFeedbackControl env first 0, element TagDiv [imageOf first]]
                 else [])
                @ (if generating first then [spinner] else []))])"

definition headline :: "DetailSection \<Rightarrow> node list" where
  \<comment> \<open>\<^verbatim>\<open>{section.keyMessage && (<h2 ...>{section.keyMessage}</h2>)}\<close>\<close>
  "headline section =
     (if shownText (keyMessage section) \<noteq> []
      then [element TagH2 [TextNode (shownText (keyMessage section))]] else [])"

definition subline :: "DetailSection \<Rightarrow> node list" where
  \<comment> \<open>\<^verbatim>\<open>{section.subMessage && (<p ...>{section.subMessage}</p>)}\<close>\<close>
  "subline section =
     (if shownText (subMessage section) \<noteq> []
      then [element TagP [TextNode (shownText (subMessage section))]] else [])"

definition hasCopy :: "DetailSection \<Rightarrow> bool" where
  \<comment> \<open>\<^verbatim>\<open>section.keyMessage || section.subMessage\<close> as a condition\<close>
  "hasCopy section =
     (shownText (keyMessage section) \<noteq> [] \<or> shownText (subMessage section) \<noteq> [])"

definition badge :: "DetailSection \<Rightarrow> node list" where
  \<comment> \<open>Line 432, with \<^verbatim>\<open>textStyle = getTextStyle(section.logicType)\<close>\<close>
  "badge section =
     (let textStyle = getTextStyle (styleKey (logicType section)) in
      if badgeShown textStyle
      then [element TagSpan
              (textChild (if badgeLabel textStyle \<noteq> [] then badgeLabel textStyle
                          else shownText (title section)))]
      else [])"

definition featureBlock :: "preview_env \<Rightarrow> nat \<Rightarrow> DetailSection \<Rightarrow> node" where
  \<comment> \<open>Lines 414 to 448, for the section at index \<open>realIdx\<close>\<close>
  "featureBlock env realIdx section =
     element TagDiv
       ((if hasImage section \<and> \<not> generating section
         then [ImageFeedbackControl env section realIdx] else [])
        @ (if \<not> generating section \<and> hasImage section
           then [element TagButton [TextNode ([0xD83D, 0xDD04] @ str '' '' @ [0xB2E4, 0xC2DC]
             @ str '' '' @ [0xC0DD, 0xC131])]] else [])
        @ [if hasImage section then
             element TagDiv
               (imageOf section
                # (if hasCopy section
                   then [element TagDiv
                           [element TagDiv (badge section @ headline section @ subline section)]]
                   else []))
           else if generating section then spinner
           else element TagDiv [element TagSpan [TextNode ([0xC774, 0xBBF8, 0xC9C0] @ str '' ''
             @ [0xC0DD, 0xC131] @ str '' '' @ [0xC2E4, 0xD328])]]])"

definition featureBlocks :: "preview_env \<Rightarrow> DetailSection list \<Rightarrow> jsstring set \<Rightarrow> node list" where
  \<comment> \<open>Lines 409 to 450: \<^verbatim>\<open>sections.slice(1, -1).map(...)\<close>, with \<^verbatim>\<open>realIdx = idx + 1\<close>\<close>
  "featureBlocks env secs hiddenSections =
     (if HIDE_FEATURES \<in> hiddenSections then []
      else map (\<lambda>(idx, section). featureBlock env (idx + 1) section)
             (enumerate 0 (butlast (tl secs))))"

definition usageBlock :: "preview_env \<Rightarrow> DetailSection list \<Rightarrow> jsstring set \<Rightarrow> node list" where
  \<comment> \<open>Lines 453 to 487\<close>
  "usageBlock env secs hiddenSections =
     (if HIDE_USAGE \<in> hiddenSections \<or> \<not> 1 < length secs then []
      else
        let lastSection = last secs; lastIdx = length secs - 1 in
        [element TagDiv
           ((if hasImage lastSection \<and> \<not> generating lastSection
             then [ImageFeedbackControl env lastSection lastIdx] else [])
            @ (if hasImage lastSection then
                 [element TagDiv
                    (imageOf lastSection
                     # (if hasCopy lastSection
                        then [element TagDiv
                                [element TagDiv (headline lastSection @ subline lastSection)]]
                        else []))]
               else if generating lastSection then [spinner]
               else []))])"

definition ctaBlock :: "preview_env \<Rightarrow> ProductData \<Rightarrow> jsstring set \<Rightarrow> node list" where
  \<comment> \<open>Lines 490 to 498\<close>
  "ctaBlock env product hiddenSections =
     (if HIDE_CTA \<in> hiddenSections then []
      else
        [element TagDiv
           [element TagH2 [TextNode ([0xC9C0, 0xAE08] @ str '' '' @ [0xBC14, 0xB85C] @ str '' ''
             @ [0xAD6C, 0xB9E4, 0xD558, 0xC138, 0xC694] @ str ''!'')],
            element TagP
              [TextNode (if promotionText product \<noteq> [] then promotionText product
                         else [0xD55C, 0xC815] @ str '' '' @ [0xC218, 0xB7C9] @ str '' ''
                           @ [0xD2B9, 0xBCC4, 0xAC00, 0xB85C] @ str '' ''
                           @ [0xB9CC, 0xB098, 0xBCF4, 0xC138, 0xC694])],
            element TagDiv
              (priceText env product @ [TextNode ([0xC6D0])]
               @ (if 0 < discountRate product
                  then [TextNode (str '' ('' @ numberToString (discountRate product)
                                  @ str ''% OFF)'')]
                  else []))]])"

definition footerBlock :: "preview_env \<Rightarrow> ProductData \<Rightarrow> jsstring set \<Rightarrow> node list" where
  \<comment> \<open>Lines 501 to 505\<close>
  "footerBlock env product hiddenSections =
     (if HIDE_FOOTER \<in> hiddenSections then []
      else
        [element TagDiv
           [element TagP
              ([TextNode ([0xA9] @ str '' ''), TextNode (numberToString (currentYear env)),
                TextNode (str '' '')]
               @ textChild (name product)
               @ [TextNode (str '' | AI '' @ [0xC0C1, 0xC138, 0xD398, 0xC774, 0xC9C0])])]])"

definition previewArea ::
  "preview_env \<Rightarrow> ProductData \<Rightarrow> DetailSection list \<Rightarrow> jsstring set \<Rightarrow> node option" where
  \<comment> \<open>The element of lines 362 to 506, for sections that are displayable; \<open>None\<close> for
      others, which React renders by rules that are not modelled here.\<close>
  "previewArea env product secs hiddenSections =
     (if list_all displayable secs
      then Some (element TagDiv
                   (headerBlock env product hiddenSections
                    @ heroBlock env secs hiddenSections
                    @ featureBlocks env secs hiddenSections
                    @ usageBlock env secs hiddenSections
                    @ ctaBlock env product hiddenSections
                    @ footerBlock env product hiddenSections))
      else None)"

section \<open>The variant of the preview in \<^verbatim>\<open>part_000\<close>\<close>

text \<open>
  \<^verbatim>\<open>src/unnamed/part_000\<close> holds another version of the same component. It hides sections
  by their \<^verbatim>\<open>id\<close>, and its \<^verbatim>\<open>handleCopyHTML\<close> (lines 417 to 436) does not walk the preview:
  it goes through the visible sections and puts out their images. A truthy \<^verbatim>\<open>imageUrl\<close>
  that is not a string has no \<^verbatim>\<open>startsWith\<close>; the \<^verbatim>\<open>catch\<close> of the handler takes the
  \<^verbatim>\<open>TypeError\<close> and reports the failure.
\<close>

definition visibleSections :: "DetailSection list \<Rightarrow> jsstring set \<Rightarrow> DetailSection list" where
  \<comment> \<open>\<^verbatim>\<open>sections.filter(s => !hiddenSections.has(s.id))\<close>\<close>
  "visibleSections secs hiddenSections = filter (\<lambda>s. section_id s \<notin> hiddenSections) secs"

definition IMAGES_OPEN :: jsstring where
  \<open>IMAGES_OPEN = str ''<div style="max-width:600px;margin:0 auto;font-family:'' @ [0x27]
    @ str ''Malgun Gothic'' @ [0x27] @ str '',sans-serif;background:#fff;">''\<close>

definition imageBlock :: "jsstring \<Rightarrow> jsstring" where
  \<open>imageBlock imgSrc =
     str ''<div style="text-align:center;margin:0;"><img src="'' @ imgSrc
     @ str ''" style="max-width:100%;height:auto;" /></div>''\<close>

definition appendSection :: "jsstring \<Rightarrow> DetailSection \<Rightarrow> js_error + jsstring" where
  \<comment> \<open>The body of the loop over the visible sections.\<close>
  "appendSection html section =
     (if truthy (imageUrl section) then
        (case imageUrl section of
           JStr u \<Rightarrow>
             let imgSrc = (if startsWith u (str ''data:'') then [] else u)
             in if imgSrc \<noteq> [] then Inr (html @ imageBlock imgSrc) else Inr html
         | other \<Rightarrow> Inl TypeError)
      else Inr html)"

fun appendSections :: "jsstring \<Rightarrow> DetailSection list \<Rightarrow> js_error + jsstring" where
  \<comment> \<open>The loop; a section that throws ends it.\<close>
  "appendSections html [] = Inr html"
| "appendSections html (section # rest) =
     (case appendSection html section of
        Inl e \<Rightarrow> Inl e
      | Inr html' \<Rightarrow> appendSections html' rest)"

definition handleCopyHTML_part_000 ::
  "bool \<Rightarrow> DetailSection list \<Rightarrow> jsstring set \<Rightarrow> bool \<Rightarrow> copy_result" where
  \<comment> \<open>\<open>mounted\<close>: \<^verbatim>\<open>previewRef.current\<close> is set; \<open>clipboardOk\<close>: the clipboard write
      resolves.\<close>
  "handleCopyHTML_part_000 mounted secs hiddenSections clipboardOk =
     (if \<not> mounted then NotMounted
      else case appendSections IMAGES_OPEN (visibleSections secs hiddenSections) of
             Inl e \<Rightarrow> CopyFailed
           | Inr html \<Rightarrow> if clipboardOk then Copied (html
             @ str ''</div>'') else CopyFailed)"

section \<open>Notions used in the statements\<close>

definition printable :: "jsval \<Rightarrow> bool" where
  \<comment> \<open>The template literal \<^verbatim>\<open>`${v}`\<close> does not throw.\<close>
  "printable v = (\<not> isl (toString v))"

definition sectionRequest :: "ProductData \<Rightarrow> page_env \<Rightarrow> nat \<Rightarrow> js_error + jsval" where
  \<comment> \<open>The outcome of the image request issued for the section at position \<open>i\<close>.\<close>
  "sectionRequest pd env i = generateImageWithAPIYI (mainReferenceImages pd) (section_env env i)"

definition thumbnailRequest :: "ProductData \<Rightarrow> page_env \<Rightarrow> js_error + jsval" where
  \<comment> \<open>The outcome of the image request issued for the thumbnail.\<close>
  "thumbnailRequest pd env = generateImageWithAPIYI (mainReferenceImages pd) (thumbnail_env env)"

definition othersUnchanged :: "jsstring \<Rightarrow> AppState \<Rightarrow> AppState \<Rightarrow> bool" where
  \<comment> \<open>From \<open>st\<close> to \<open>st'\<close> nothing changes but sections with the given id: the other
      fields of the state, the thumbnail, the number and order of the sections (their
      ids, position by position) and every section with another id are the same.\<close>
  "othersUnchanged sid st st' =
     (st'\<lparr>generatedPage := generatedPage st\<rparr> = st
      \<and> (case (generatedPage st, generatedPage st') of
            (None, None) \<Rightarrow> True
          | (Some p, Some p') \<Rightarrow>
              thumbnail p' = thumbnail p
              \<and> list_all2 (\<lambda>a b. section_id b = section_id a \<and> (section_id a \<noteq> sid \<longrightarrow> b = a))
                   (sections p) (sections p')
          | _ \<Rightarrow> False))"

text \<open>
  The export is a sequence of blocks. \<open>processBlocks\<close> follows \<^verbatim>\<open>processNode\<close> and lists
  the blocks instead of joining their markup, so that statements can speak about the
  blocks of an export; the two are related by a theorem below.
\<close>

datatype block =
    Heading1 jsstring
  | Heading2 jsstring
  | Paragraph jsstring
  | Image jsstring
  | PlainText jsstring

fun blockMarkup :: "block \<Rightarrow> jsstring" where
  "blockMarkup (Heading1 t) = h1Markup t"
| "blockMarkup (Heading2 t) = h2Markup t"
| "blockMarkup (Paragraph t) = pMarkup t"
| "blockMarkup (Image src) = imageMarkup src"
| "blockMarkup (PlainText t) = t"

fun processBlocks :: "node \<Rightarrow> block list"
  and processBlocksOf :: "node list \<Rightarrow> block list" where
  "processBlocks (TextNode s) = (if keepsText (trim s) then [PlainText (trim s)] else [])"
| "processBlocks (Element t a kids) =
     (if t = TagImg then (if keepsImage a then [Image (the a)] else [])
      else if t = TagH1 then
        (if keepsHeading (trim (textContents kids)) then [Heading1 (trim (textContents kids))]
         else [])
      else if t = TagH2 then
        (if keepsHeading (trim (textContents kids)) then [Heading2 (trim (textContents kids))]
         else [])
      else if t = TagP then
        (if keepsParagraph (trim (textContents kids)) then [Paragraph (trim (textContents kids))]
         else [])
      else processBlocksOf kids)"
| "processBlocksOf [] = []"
| "processBlocksOf (k # ks) = processBlocks k @ processBlocksOf ks"

definition exportBlocks :: "node \<Rightarrow> block list" where
  \<comment> \<open>The blocks of the export of a preview area.\<close>
  "exportBlocks el = processBlocks (stripControls el)"

definition imagesOf :: "block list \<Rightarrow> jsstring list" where
  \<comment> \<open>The sources of the image blocks, in order.\<close>
  "imagesOf blocks = concat (map (\<lambda>b. case b of Image src \<Rightarrow> [src] | _ \<Rightarrow> []) blocks)"

definition shownSections :: "DetailSection list \<Rightarrow> jsstring set \<Rightarrow> DetailSection list" where
  \<comment> \<open>The sections whose place in the preview is not hidden: the first one is the hero,
      the last of two or more is the usage scene, those in between are the features.\<close>
  "shownSections secs hiddenSections =
     (if HIDE_HERO \<in> hiddenSections then [] else take 1 secs)
     @ (if HIDE_FEATURES \<in> hiddenSections then [] else butlast (tl secs))
     @ (if HIDE_USAGE \<in> hiddenSections \<or> \<not> 1 < length secs then [] else [last secs])"

definition exportedImage :: "DetailSection \<Rightarrow> bool" where
  \<comment> \<open>The \<^verbatim>\<open>imageUrl\<close> of the section is a string, is not empty and does not contain
      \<^verbatim>\<open>data:\<close>.\<close>
  "exportedImage s =
     (case imageUrl s of
        JStr u \<Rightarrow> u \<noteq> [] \<and> \<not> includesStr u (str ''data:'')
      | _ \<Rightarrow> False)"

definition titlesOf :: "block list \<Rightarrow> jsstring list" where
  \<comment> \<open>The texts of the first-level headings, in order.\<close>
  "titlesOf blocks = concat (map (\<lambda>b. case b of Heading1 t \<Rightarrow> [t] | _ \<Rightarrow> []) blocks)"

definition copySections :: "DetailSection list \<Rightarrow> jsstring set \<Rightarrow> DetailSection list" where
  \<comment> \<open>The shown sections whose copy the preview lays over their image: the features and
      the usage scene. The hero is shown without its copy.\<close>
  "copySections secs hiddenSections =
     (if HIDE_FEATURES \<in> hiddenSections then [] else butlast (tl secs))
     @ (if HIDE_USAGE \<in> hiddenSections \<or> \<not> 1 < length secs then [] else [last secs])"

definition tagOf :: "node \<Rightarrow> tag option" where
  "tagOf n = (case n of TextNode s \<Rightarrow> None | Element t a kids \<Rightarrow> Some t)"

fun strip :: "node \<Rightarrow> node"
  and stripAmong :: "node list \<Rightarrow> node list" where
  \<comment> \<open>The four removals of \<open>stripControls\<close> in one pass.\<close>
  "strip (TextNode s) = TextNode s"
| "strip (Element t a kids) = Element t a (stripAmong kids)"
| "stripAmong [] = []"
| "stripAmong (TextNode s # ks) = TextNode s # stripAmong ks"
| "stripAmong (Element t a kids # ks) =
     (if t \<in> {TagButton, TagInput, TagLabel, TagSvg} then stripAmong ks
      else Element t a (stripAmong kids) # stripAmong ks)"

definition blocksOf :: "node list \<Rightarrow> block list" where
  \<comment> \<open>The blocks that the export makes of nodes among the children of the preview area.\<close>
  "blocksOf ks = processBlocksOf (stripAmong ks)"

definition isRemoteImage :: "DetailSection \<Rightarrow> bool" where
  \<comment> \<open>The \<^verbatim>\<open>imageUrl\<close> of the section is a string, is not empty and does not start with
      \<^verbatim>\<open>data:\<close>.\<close>
  "isRemoteImage s =
     (case imageUrl s of
        JStr u \<Rightarrow> u \<noteq> [] \<and> \<not> startsWith u (str ''data:'')
      | _ \<Rightarrow> False)"

section \<open>Concrete inputs\<close>

definition exampleProduct :: "PageLength option \<Rightarrow> int \<Rightarrow> jsstring option \<Rightarrow> ProductData" where
  "exampleProduct len p cat =
     \<lparr> name = str ''Wireless Earbuds'', description = str ''earbuds'',
       targetAudience = str ''commuters'', images = [str ''data:image/png;base64,AAAA''],
       selectedModel = Pro, platform = Coupang, price = p, discountRate = 0,
       promotionText = [], pageLength = len, category = cat, targetGender = Some AllGenders,
       targetAge = None, thumbnailConfig = None \<rparr>"

definition exampleConfig :: ThumbnailConfig where
  "exampleConfig =
     \<lparr>style = Clean, includeHand = False, includeModel = False, textOverlay = [],
      overlayPosition = Center\<rparr>"

definition textResponse :: "jsstring \<Rightarrow> fetch_result" where
  \<comment> \<open>An \<^verbatim>\<open>ok\<close> response of the text model whose first part holds the given text.\<close>
  "textResponse t =
     FetchResolved \<lparr>ok = True, status = 200,
       json = Inr (JObj [(str ''candidates'',
                JArr [JObj [(str ''content'',
                  JObj [(str ''parts'', JArr [JObj [(str ''text'', JStr t)]])])]])]),
       text_body = Inr []\<rparr>"

definition imageResponse :: fetch_result where
  \<comment> \<open>An \<^verbatim>\<open>ok\<close> response of the image model with one inline PNG.\<close>
  "imageResponse =
     FetchResolved \<lparr>ok = True, status = 200,
       json = Inr (JObj [(str ''candidates'',
                JArr [JObj [(str ''content'',
                  JObj [(str ''parts'',
                    JArr [JObj [(str ''inlineData'',
                      JObj [(str ''mimeType'', JStr (str ''image/png'')),
                            (str ''data'', JStr (str ''QUJD''))])]])])]])]),
       text_body = Inr []\<rparr>"

definition errorResponse :: "nat \<Rightarrow> fetch_result" where
  \<comment> \<open>A response with the given error status and the body \<^verbatim>\<open>{}\<close>.\<close>
  "errorResponse st =
     FetchResolved \<lparr>ok = False, status = st, json = Inr (JObj []), text_body = Inr (str ''{}'')\<rparr>"

definition storedAt :: "jsstring \<Rightarrow> upload_result" where
  \<comment> \<open>An upload that succeeds and gives the URL.\<close>
  "storedAt u =
     UploadOk (Inr (JObj [(str ''secure_url'', JStr u), (str ''public_id'', JStr (str ''p'')),
                          (str ''width'', JNum 1), (str ''height'', JNum 1),
                          (str ''format'', JStr (str ''png'')), (str ''bytes'', JNum 3)]))"

definition okImage :: image_env where
  \<comment> \<open>The request succeeds and the image is stored.\<close>
  "okImage = \<lparr>apiKey = Some (str ''key''), apiyi = imageResponse,
              cloudinary = storedAt (str ''https://res.cloudinary.com/demo/new.png'')\<rparr>"

definition failingImage :: "nat \<Rightarrow> image_env" where
  \<comment> \<open>The request is answered with the given error status.\<close>
  "failingImage st = \<lparr>apiKey = Some (str ''key''), apiyi = errorResponse st,
                       cloudinary = UploadRejected TypeError\<rparr>"

definition fiveRolesText :: jsstring where
  \<open>fiveRolesText = str ''{"sections":[{"logicType":"hook"},{"logicType":"solution"},{"logicType":"clarity"},{"logicType":"service"},{"logicType":"riskReversal"}]}''\<close>

definition oneRoleText :: jsstring where
  \<open>oneRoleText = str ''{"sections":[{"logicType":"comparison"}]}''\<close>

definition nullEntryText :: jsstring where
  \<open>nullEntryText = str ''{"sections":[{"logicType":"hook"},null]}''\<close>

definition unprintableOrderText :: jsstring where
  \<open>unprintableOrderText = str ''{"sections":[{"logicType":"hook","order":{"toString":1}}]}''\<close>

definition roleEntry :: "string \<Rightarrow> jsval" where
  "roleEntry r = JObj [(str ''logicType'', JStr (str r))]"

definition exampleParse :: "jsstring \<Rightarrow> js_error + jsval" where
  \<comment> \<open>\<^verbatim>\<open>JSON.parse\<close> on the four texts above and on \<^verbatim>\<open>{}\<close>; any other text is refused.\<close>
  "exampleParse t =
     (if t = fiveRolesText then
        Inr (JObj [(str ''sections'',
               JArr [roleEntry ''hook'', roleEntry ''solution'', roleEntry ''clarity'',
                     roleEntry ''service'', roleEntry ''riskReversal''])])
      else if t = oneRoleText then
        Inr (JObj [(str ''sections'', JArr [roleEntry ''comparison''])])
      else if t = nullEntryText then
        Inr (JObj [(str ''sections'', JArr [roleEntry ''hook'', JNull])])
      else if t = unprintableOrderText then
        Inr (JObj [(str ''sections'',
               JArr [JObj [(str ''logicType'', JStr (str ''hook'')),
                           (str ''order'', JObj [(str ''toString'', JNum 1)])]])])
      else if t = str ''{}'' then Inr (JObj [])
      else Inl (JsError (str ''SyntaxError'') (str ''unexpected token'')))"

definition planWith :: "jsstring \<Rightarrow> plan_env" where
  "planWith t = \<lparr>plan_apiKey = Some (str ''key''), plan_fetch = textResponse t,
                 JSON_parse = exampleParse\<rparr>"

definition batchWith :: "(nat \<Rightarrow> image_env) \<Rightarrow> image_env \<Rightarrow> page_env" where
  \<comment> \<open>A run whose plan has the five roles.\<close>
  "batchWith secEnv thumbEnv =
     \<lparr>planning = planWith fiveRolesText, section_env = secEnv, thumbnail_env = thumbEnv\<rparr>"

definition plannedSection :: "nat \<Rightarrow> string \<Rightarrow> DetailSection" where
  \<comment> \<open>What \<^verbatim>\<open>planDetailPage\<close> makes of \<open>roleEntry r\<close> at position \<open>n - 1\<close>.\<close>
  "plannedSection n r =
     \<lparr>section_id = str ''section-'' @ numberToString (int n), section_order = JNum (int n),
      logicType = JStr (str r), title = JUndefined, keyMessage = JUndefined,
      subMessage = JUndefined, visualPrompt = JUndefined, imageUrl = JUndefined,
      isGenerating = Some False, textPosition = JStr (str ''center''),
      textStyle = JStr (str ''light'')\<rparr>"

definition thumbnailProduct :: ProductData where
  \<comment> \<open>A product for which a thumbnail is requested.\<close>
  "thumbnailProduct = (exampleProduct (Some Len5) 25000 None)\<lparr>thumbnailConfig := Some exampleConfig\<rparr>"

definition fivePlanned :: "DetailSection list" where
  "fivePlanned =
     [plannedSection 1 ''hook'', plannedSection 2 ''solution'', plannedSection 3 ''clarity'',
      plannedSection 4 ''service'', plannedSection 5 ''riskReversal'']"

definition newUrl :: jsstring where
  "newUrl = str ''https://res.cloudinary.com/demo/new.png''"

definition creditBatch :: page_env where
  \<comment> \<open>The request of the third section is answered with status 429; the four other
      section requests and the thumbnail request succeed.\<close>
  "creditBatch = batchWith (\<lambda>i. if i = 2 then failingImage 429 else okImage) okImage"

definition unprintableOrderBatch :: page_env where
  \<comment> \<open>The plan holds one section whose \<^verbatim>\<open>order\<close> is the object \<^verbatim>\<open>{"toString":1}\<close>; the
      request of that section and the request of the thumbnail are answered with
      status 500.\<close>
  "unprintableOrderBatch =
     \<lparr>planning = planWith unprintableOrderText, section_env = (\<lambda>i. failingImage 500),
      thumbnail_env = failingImage 500\<rparr>"

definition withImage :: "DetailSection \<Rightarrow> jsstring \<Rightarrow> DetailSection" where
  "withImage s u = s\<lparr>imageUrl := JStr u\<rparr>"

definition remoteSection :: DetailSection where
  \<comment> \<open>A section with copy text and a stored image.\<close>
  "remoteSection =
     (plannedSection 1 ''hook'')
       \<lparr>title := JStr (str ''Tired of tangled cables?''),
        keyMessage := JStr (str ''Freedom from wires''),
        imageUrl := JStr (str ''https://res.cloudinary.com/demo/hero.png''),
        isGenerating := Some False\<rparr>"

definition inlineSection :: DetailSection where
  \<comment> \<open>A section whose image is still inline.\<close>
  "inlineSection =
     (plannedSection 2 ''solution'')
       \<lparr>imageUrl := JStr (str ''data:image/png;base64,QUJD''), isGenerating := Some False\<rparr>"

definition exampleState :: AppState where
  \<comment> \<open>The preview of a page with two sections, both with an image, and a thumbnail.\<close>
  "exampleState =
     \<lparr>step = Preview, productData = thumbnailProduct, originalImages = images thumbnailProduct,
      generatedImages = [], mainImageIndex = 0, generatedCopy = None,
      generatedPage =
        Some \<lparr>sections = [remoteSection, inlineSection],
              thumbnail = Some \<lparr>thumbnailUrl = JStr (str ''https://res.cloudinary.com/demo/t.png''),
                                thumbnailPrompt = str ''Wireless Earbuds thumbnail''\<rparr>\<rparr>,
      isEditingImage = False, generationProgress = None\<rparr>"

definition withSections :: "DetailSection list \<Rightarrow> AppState" where
  \<comment> \<open>\<open>exampleState\<close> with other sections.\<close>
  "withSections secs =
     exampleState\<lparr>generatedPage :=
       Some \<lparr>sections = secs,
             thumbnail = Some \<lparr>thumbnailUrl = JStr (str ''https://res.cloudinary.com/demo/t.png''),
                               thumbnailPrompt = str ''Wireless Earbuds thumbnail''\<rparr>\<rparr>\<rparr>"

definition planFetching :: "fetch_result \<Rightarrow> plan_env" where
  "planFetching f = \<lparr>plan_apiKey = Some (str ''key''), plan_fetch = f, JSON_parse = exampleParse\<rparr>"

definition unreadableBody :: http_response where
  \<comment> \<open>An \<^verbatim>\<open>ok\<close> response whose body is not JSON.\<close>
  "unreadableBody =
     \<lparr>ok = True, status = 200,
      json = Inl (JsError (str ''SyntaxError'') (str ''unexpected token'')),
      text_body = Inr (str ''<html>'')\<rparr>"

definition nullBody :: http_response where
  \<comment> \<open>An \<^verbatim>\<open>ok\<close> response whose body is the JSON text \<^verbatim>\<open>null\<close>.\<close>
  "nullBody = \<lparr>ok = True, status = 200, json = Inr JNull, text_body = Inr (str ''null'')\<rparr>"

definition numericBody :: jsval where
  \<comment> \<open>A body whose first part holds the number 5 as its text.\<close>
  "numericBody =
     JObj [(str ''candidates'',
       JArr [JObj [(str ''content'',
         JObj [(str ''parts'', JArr [JObj [(str ''text'', JNum 5)]])])]])]"

definition numericText :: http_response where
  "numericText = \<lparr>ok = True, status = 200, json = Inr numericBody, text_body = Inr []\<rparr>"

definition serverError :: http_response where
  "serverError = \<lparr>ok = False, status = 500, json = Inr (JObj []), text_body = Inr (str ''{}'')\<rparr>"

definition textBody :: "jsstring \<Rightarrow> jsval" where
  \<comment> \<open>The body of \<open>textResponse t\<close>.\<close>
  "textBody t =
     JObj [(str ''candidates'',
       JArr [JObj [(str ''content'',
         JObj [(str ''parts'', JArr [JObj [(str ''text'', JStr t)]])])]])]"

definition textResponseRecord :: "jsstring \<Rightarrow> http_response" where
  \<comment> \<open>The response of \<open>textResponse t\<close>.\<close>
  "textResponseRecord t =
     \<lparr>ok = True, status = 200, json = Inr (textBody t), text_body = Inr []\<rparr>"

fun groupThousands :: "jsstring \<Rightarrow> jsstring" where
  \<comment> \<open>Commas between groups of three digits, on the digits in reverse order.\<close>
  "groupThousands (a # b # c # d # rest) = a # b # c # 44 # groupThousands (d # rest)"
| "groupThousands ds = ds"

definition commaGrouped :: "jsnumber \<Rightarrow> jsstring" where
  \<comment> \<open>\<^verbatim>\<open>toLocaleString\<close> in a locale that groups digits by commas, such as \<^verbatim>\<open>ko-KR\<close>.\<close>
  "commaGrouped n =
     (case n of
        Finite i \<Rightarrow>
          (if i < 0 then str ''-'' else [])
          @ rev (groupThousands (rev (digitsOf (nat (abs i)))))
      | MinusZero \<Rightarrow> str ''-0''
      | PlusInfinity \<Rightarrow> [0x221E]
      | MinusInfinity \<Rightarrow> str ''-'' @ [0x221E]
      | NotANumber \<Rightarrow> str ''NaN'')"

definition closedControl :: control_state where
  \<comment> \<open>The state in which a control is mounted.\<close>
  "closedControl =
     \<lparr>isOpen = False, editRequest = [], isLoading = False, isRegenerating = False,
      imageScale = 100, editablePrompt = [],
      isEditingPrompt = False, translatedPrompt = [], isTranslating = False\<rparr>"

definition plainButton :: "jsstring \<Rightarrow> bool \<Rightarrow> bool \<Rightarrow> node list \<Rightarrow> node" where
  \<comment> \<open>A \<^verbatim>\<open>Button\<close> that renders a \<^verbatim>\<open>button\<close> around its children.\<close>
  "plainButton className loading disabled kids = Element TagButton None kids"

definition exampleEnv :: preview_env where
  "exampleEnv =
     \<lparr>toLocaleString = commaGrouped, currentYear = 2026, Button = plainButton,
      controlState = (\<lambda>i. closedControl)\<rparr>"

definition featureSection :: DetailSection where
  \<comment> \<open>A section with copy text and a stored image.\<close>
  "featureSection =
     (plannedSection 2 ''solution'')
       \<lparr>title := JStr (str ''Solution''),
        keyMessage := JStr (str ''Crystal clear sound''),
        subMessage := JStr (str ''Noise cancelling for every commute''),
        imageUrl := JStr (str ''https://res.cloudinary.com/demo/feature.png'')\<rparr>"

definition inlineLast :: DetailSection where
  \<comment> \<open>A section with copy text whose image is still inline.\<close>
  "inlineLast =
     (plannedSection 3 ''service'')
       \<lparr>keyMessage := JStr (str ''Pairs in seconds''),
        imageUrl := JStr (str ''data:image/png;base64,QUJD'')\<rparr>"

definition crystalBracelet :: ProductData where
  \<comment> \<open>A product whose name holds the two syllables of the label of the edit button:
      U+C218 U+C815 U+D314 U+CC0C is a crystal bracelet.\<close>
  "crystalBracelet = thumbnailProduct\<lparr>name := [0xC218, 0xC815] @ str '' ''
    @ [0xD314, 0xCC0C]\<rparr>"

definition taggedUrlSection :: DetailSection where
  \<comment> \<open>A section whose image is remote, with \<^verbatim>\<open>data:\<close> inside its URL.\<close>
  "taggedUrlSection =
     (plannedSection 1 ''hook'')
       \<lparr>imageUrl := JStr (str ''https://cdn.example.com/render?source=data:42'')\<rparr>"

section \<open>Theorems\<close>

subsection \<open>The fallback image and the outcome of one unit\<close>

text \<open>
  \<^verbatim>\<open>getFallbackImage\<close> hands \<^verbatim>\<open>btoa\<close> a string with Korean text, whose code units are
  above U+00FF: it throws every time, and never returns a placeholder.
\<close>

lemma getFallbackImage_throws: "getFallbackImage = Inl InvalidCharacterError"
  by (simp add: getFallbackImage_def btoa_def getFallbackSvg_def)

lemma InvalidCharacterError_not_credits:
  "err_message InvalidCharacterError \<noteq> CREDITS_INSUFFICIENT"
  by (simp add: InvalidCharacterError_def CREDITS_INSUFFICIENT_def str_def)

lemma fallbackUnlessCredits_throws:
  "fallbackUnlessCredits e =
     Inl (if err_message e = CREDITS_INSUFFICIENT then e else InvalidCharacterError)"
  by (simp add: fallbackUnlessCredits_def getFallbackImage_throws)

lemma generateSectionImage_cases:
  "generateSectionImage s pd r env =
     (case toString (visualPrompt s) of
        Inl e \<Rightarrow> Inl e
      | Inr t \<Rightarrow>
          (case generateImageWithAPIYI (mainReferenceImages pd) env of
             Inr u \<Rightarrow> Inr u
           | Inl e \<Rightarrow> Inl (if err_message e = CREDITS_INSUFFICIENT then e
                           else InvalidCharacterError)))"
  by (simp add: generateSectionImage_def fallbackUnlessCredits_throws split: sum.split)

lemma generateThumbnail_cases:
  "generateThumbnail pd env =
     (case generateImageWithAPIYI (mainReferenceImages pd) env of
        Inr u \<Rightarrow> Inr u
      | Inl e \<Rightarrow> Inl (if err_message e = CREDITS_INSUFFICIENT then e else InvalidCharacterError))"
  by (simp add: generateThumbnail_def fallbackUnlessCredits_throws split: sum.split)

lemma printable_cases: "printable v \<Longrightarrow> \<exists>t. toString v = Inr t"
  by (cases "toString v") (simp_all add: printable_def)

lemma sectionTask_cases:
  assumes "printable (section_order s)" and "printable (visualPrompt s)"
  shows "sectionTask s pd env =
     Inr (case generateImageWithAPIYI (mainReferenceImages pd) env of
            Inr u \<Rightarrow> s\<lparr>imageUrl := u, isGenerating := Some False\<rparr>
          | Inl e \<Rightarrow> s\<lparr>isGenerating := Some False\<rparr>)"
proof -
  from assms obtain t t' where "toString (section_order s) = Inr t"
    and "toString (visualPrompt s) = Inr t'"
    by (auto dest!: printable_cases)
  then show ?thesis
    by (simp add: sectionTask_def generateSectionImage_cases split: sum.split)
qed

lemma thumbnailTask_cases:
  "thumbnailTask pd env =
     Inr (case thumbnailConfig pd of
            None \<Rightarrow> None
          | Some config \<Rightarrow>
              (case generateImageWithAPIYI (mainReferenceImages pd) env of
                 Inr u \<Rightarrow> Some \<lparr>thumbnailUrl = u, thumbnailPrompt = name pd @ str '' thumbnail''\<rparr>
               | Inl e \<Rightarrow> None))"
  by (simp add: thumbnailTask_def generateThumbnail_cases split: option.split sum.split)

lemma promiseAll_map_Inr: "promiseAll (map (\<lambda>x. Inr (f x)) xs) = Inr (map f xs)"
  by (induction xs) simp_all

lemma promiseAll_imagePromises:
  assumes "\<forall>s \<in> set secs. printable (section_order s) \<and> printable (visualPrompt s)"
  shows "promiseAll (imagePromises secs pd env) =
     Inr (map (\<lambda>(i, s). case generateImageWithAPIYI (mainReferenceImages pd) (section_env env i) of
                          Inr u \<Rightarrow> s\<lparr>imageUrl := u, isGenerating := Some False\<rparr>
                        | Inl e \<Rightarrow> s\<lparr>isGenerating := Some False\<rparr>)
            (enumerate 0 secs))"
proof -
  have member: "snd p \<in> set secs" if "p \<in> set (enumerate 0 secs)" for p
  proof -
    obtain i s where p: "p = (i, s)" by (cases p)
    with that have "(i, s) \<in> set (zip [0..<length secs] secs)"
      by (simp add: enumerate_eq_zip)
    then show ?thesis using p by (auto dest: set_zip_rightD)
  qed
  have "imagePromises secs pd env =
          map (\<lambda>p. sectionTask (snd p) pd (section_env env (fst p))) (enumerate 0 secs)"
    by (simp add: imagePromises_def split_def)
  also have "\<dots> =
          map (\<lambda>p. Inr (case p of (i, s) \<Rightarrow>
                  (case generateImageWithAPIYI (mainReferenceImages pd) (section_env env i) of
                     Inr u \<Rightarrow> s\<lparr>imageUrl := u, isGenerating := Some False\<rparr>
                   | Inl e \<Rightarrow> s\<lparr>isGenerating := Some False\<rparr>)))
            (enumerate 0 secs)"
  proof (rule map_cong [OF refl])
    fix p assume "p \<in> set (enumerate 0 secs)"
    from member [OF this] assms
    have "printable (section_order (snd p))" and "printable (visualPrompt (snd p))"
      by auto
    from sectionTask_cases [OF this]
    show "sectionTask (snd p) pd (section_env env (fst p)) =
            Inr (case p of (i, s) \<Rightarrow>
                  (case generateImageWithAPIYI (mainReferenceImages pd) (section_env env i) of
                     Inr u \<Rightarrow> s\<lparr>imageUrl := u, isGenerating := Some False\<rparr>
                   | Inl e \<Rightarrow> s\<lparr>isGenerating := Some False\<rparr>))"
      by (simp add: split_def)
  qed
  finally show ?thesis
    by (simp only: promiseAll_map_Inr)
qed

text \<open>
  Once the plan is there and the \<^verbatim>\<open>order\<close> and the \<^verbatim>\<open>visualPrompt\<close> of each planned
  section can be printed, the page is returned whatever the image requests do.
\<close>

lemma generateFullDetailPage_after_plan:
  assumes "planDetailPage pd (planning env) = Inr secs"
    and "\<forall>s \<in> set secs. printable (section_order s) \<and> printable (visualPrompt s)"
  shows "generateFullDetailPage pd env =
     Inr \<lparr>sections =
            map (\<lambda>(i, s). case sectionRequest pd env i of
                            Inr u \<Rightarrow> s\<lparr>imageUrl := u, isGenerating := Some False\<rparr>
                          | Inl e \<Rightarrow> s\<lparr>isGenerating := Some False\<rparr>)
              (enumerate 0 secs),
          thumbnail =
            (case thumbnailConfig pd of
               None \<Rightarrow> None
             | Some config \<Rightarrow>
                 (case thumbnailRequest pd env of
                    Inr u \<Rightarrow> Some \<lparr>thumbnailUrl = u,
                                    thumbnailPrompt = name pd @ str '' thumbnail''\<rparr>
                  | Inl e \<Rightarrow> None))\<rparr>"
  using assms(1) unfolding sectionRequest_def thumbnailRequest_def
  by (simp add: generateFullDetailPage_def promiseAll_imagePromises [OF assms(2)]
      thumbnailTask_cases)

subsection \<open>Sections as planned\<close>

lemma mapSections_length:
  "mapSections idx xs = Inr ss \<Longrightarrow> length ss = length xs"
  by (induction xs arbitrary: idx ss) (auto split: sum.splits)

lemma mapSections_nth:
  "mapSections idx xs = Inr ss \<Longrightarrow> i < length xs \<Longrightarrow> toSection (idx + i) (xs ! i) = Inr (ss ! i)"
proof (induction xs arbitrary: idx ss i)
  case Nil
  then show ?case by simp
next
  case (Cons x xs)
  from Cons.prems(1) obtain s rest where
    s: "toSection idx x = Inr s" and rest: "mapSections (Suc idx) xs = Inr rest"
    and ss: "ss = s # rest"
    by (auto split: sum.splits)
  show ?case
  proof (cases i)
    case 0
    then show ?thesis using s ss by simp
  next
    case (Suc j)
    with Cons.prems(2) have "j < length xs" by simp
    from Cons.IH [OF rest this] show ?thesis using Suc ss by simp
  qed
qed

lemma mapSections_fails:
  "(\<exists>e. mapSections idx xs = Inl e) \<longleftrightarrow> (\<exists>x \<in> set xs. nullish x)"
proof (induction xs arbitrary: idx)
  case Nil
  then show ?case by simp
next
  case (Cons x xs)
  show ?case
  proof (cases "nullish x")
    case True
    then show ?thesis by (simp add: toSection_def)
  next
    case False
    then obtain s where "toSection idx x = Inr s" by (simp add: toSection_def)
    then show ?thesis using Cons.IH [of "Suc idx"] False
      by (auto split: sum.splits)
  qed
qed

subsection \<open>The concrete inputs, evaluated\<close>

lemma example_plan: "planDetailPage thumbnailProduct (planWith fiveRolesText) = Inr fivePlanned"
  by code_simp

lemma example_request_ok:
  "generateImageWithAPIYI (mainReferenceImages thumbnailProduct) okImage = Inr (JStr newUrl)"
  by code_simp

lemma example_request_429:
  "generateImageWithAPIYI (mainReferenceImages thumbnailProduct) (failingImage 429)
     = Inl (Error CREDITS_INSUFFICIENT)"
  by code_simp

lemma fivePlanned_printable:
  "\<forall>s \<in> set fivePlanned. printable (section_order s) \<and> printable (visualPrompt s)"
  by (simp add: fivePlanned_def plannedSection_def printable_def)

subsection \<open>The credit error in a batch\<close>

text \<open>
  Claim C1 says that a single image request failing with the error \<^verbatim>\<open>CREDITS_INSUFFICIENT\<close>
  makes \<^verbatim>\<open>generateFullDetailPage\<close> reject with that error. The code does not do so.
  In the run below the plan has five sections, the request of the third section is
  answered with status 429 and \<^verbatim>\<open>generateImageWithAPIYI\<close> throws the credit error for
  it; \<^verbatim>\<open>generateSectionImage\<close> throws it again, but the \<^verbatim>\<open>catch\<close> inside
  \<^verbatim>\<open>generateFullDetailPage\<close> takes it like any other error, and the call returns a page
  whose third section is left without an image.
\<close>

theorem credit_error_is_swallowed:
  "sectionRequest thumbnailProduct creditBatch 2 = Inl (Error CREDITS_INSUFFICIENT)
   \<and> generateSectionImage (fivePlanned ! 2) thumbnailProduct (firstImage thumbnailProduct)
        (section_env creditBatch 2) = Inl (Error CREDITS_INSUFFICIENT)
   \<and> generateFullDetailPage thumbnailProduct creditBatch =
       Inr \<lparr>sections =
              [withImage (plannedSection 1 ''hook'') newUrl,
               withImage (plannedSection 2 ''solution'') newUrl,
               plannedSection 3 ''clarity'',
               withImage (plannedSection 4 ''service'') newUrl,
               withImage (plannedSection 5 ''riskReversal'') newUrl],
            thumbnail = Some \<lparr>thumbnailUrl = JStr newUrl,
                              thumbnailPrompt = str ''Wireless Earbuds thumbnail''\<rparr>\<rparr>"
proof -
  have plan: "planDetailPage thumbnailProduct (planning creditBatch) = Inr fivePlanned"
    by (simp add: creditBatch_def batchWith_def example_plan)
  have req: "sectionRequest thumbnailProduct creditBatch i =
       (if i = 2 then Inl (Error CREDITS_INSUFFICIENT) else Inr (JStr newUrl))" for i
    by (simp add: sectionRequest_def creditBatch_def batchWith_def example_request_ok
        example_request_429)
  have thumb: "thumbnailRequest thumbnailProduct creditBatch = Inr (JStr newUrl)"
    by (simp add: thumbnailRequest_def creditBatch_def batchWith_def example_request_ok)
  have config: "thumbnailConfig thumbnailProduct = Some exampleConfig"
    "name thumbnailProduct @ str '' thumbnail'' = str ''Wireless Earbuds thumbnail''"
    by (simp_all add: thumbnailProduct_def exampleProduct_def str_def)
  have enum: "enumerate 0 fivePlanned =
      [(0, plannedSection 1 ''hook''), (1, plannedSection 2 ''solution''),
       (2, plannedSection 3 ''clarity''), (3, plannedSection 4 ''service''),
       (4, plannedSection 5 ''riskReversal'')]"
    by (simp add: fivePlanned_def)
  have third: "generateSectionImage (fivePlanned ! 2) thumbnailProduct (firstImage thumbnailProduct)
        (section_env creditBatch 2) = Inl (Error CREDITS_INSUFFICIENT)"
    using req [of 2]
    by (simp add: generateSectionImage_cases sectionRequest_def Error_def fivePlanned_def
        plannedSection_def)
  have page: "generateFullDetailPage thumbnailProduct creditBatch =
       Inr \<lparr>sections =
              [withImage (plannedSection 1 ''hook'') newUrl,
               withImage (plannedSection 2 ''solution'') newUrl,
               plannedSection 3 ''clarity'',
               withImage (plannedSection 4 ''service'') newUrl,
               withImage (plannedSection 5 ''riskReversal'') newUrl],
            thumbnail = Some \<lparr>thumbnailUrl = JStr newUrl,
                              thumbnailPrompt = str ''Wireless Earbuds thumbnail''\<rparr>\<rparr>"
    unfolding generateFullDetailPage_after_plan [OF plan fivePlanned_printable] enum
    by (simp add: req thumb config withImage_def plannedSection_def)
  from req [of 2] third page show ?thesis by simp
qed

subsection \<open>Planning: failure and the response list\<close>

lemma planDetailPage_Inr:
  assumes "planDetailPage pd env = Inr secs"
  shows "\<exists>entries. responseSections env = Inr (JArr entries)
           \<and> mapSections 0 entries = Inr secs"
  using assms by (auto simp: planDetailPage_def split: sum.splits jsval.splits)

lemma planDetailPage_entries:
  assumes "planDetailPage pd env = Inr secs" and "responseSections env = Inr (JArr entries)"
  shows "length secs = length entries"
    and "\<forall>i < length entries. toSection i (entries ! i) = Inr (secs ! i)"
    and "\<forall>x \<in> set entries. \<not> nullish x"
proof -
  from planDetailPage_Inr [OF assms(1)] assms(2)
  have m: "mapSections 0 entries = Inr secs" by auto
  show "length secs = length entries"
    by (rule mapSections_length [OF m])
  show "\<forall>i < length entries. toSection i (entries ! i) = Inr (secs ! i)"
    using mapSections_nth [OF m] by simp
  show "\<forall>x \<in> set entries. \<not> nullish x"
    using mapSections_fails [of 0 entries] m by auto
qed

lemma responseSections_Inr_iff:
  "responseSections env = Inr v \<longleftrightarrow>
     (\<exists>r data t m parsed.
        plan_fetch env = FetchResolved r \<and> ok r \<and> json r = Inr data
        \<and> responseText data = Inr (JStr t) \<and> matchJsonObject t = Some m
        \<and> JSON_parse env m = Inr parsed \<and> getProp parsed (str ''sections'') = Inr v)"
  by (auto simp: responseSections_def
      split: fetch_result.splits sum.splits option.splits jsval.splits)

lemma mapSections_Inr_iff:
  "mapSections idx xs = Inr ss \<longleftrightarrow>
     (\<forall>x \<in> set xs. \<not> nullish x) \<and> length ss = length xs
     \<and> (\<forall>i < length xs. toSection (idx + i) (xs ! i) = Inr (ss ! i))"
proof (induction xs arbitrary: idx ss)
  case Nil
  then show ?case by auto
next
  case (Cons x xs)
  show ?case
  proof (cases "nullish x")
    case True
    then show ?thesis by (simp add: toSection_def)
  next
    case False
    then obtain s where s: "toSection idx x = Inr s" by (simp add: toSection_def)
    show ?thesis
    proof (cases ss)
      case Nil
      then show ?thesis using s by (auto split: sum.splits)
    next
      case (Cons s' rest)
      have "(\<forall>i < Suc (length xs). toSection (idx + i) ((x # xs) ! i) = Inr ((s' # rest) ! i))
              \<longleftrightarrow> toSection idx x = Inr s'
                  \<and> (\<forall>i < length xs. toSection (Suc idx + i) (xs ! i) = Inr (rest ! i))"
        by (auto simp: less_Suc_eq_0_disj)
      then show ?thesis
        using s False Cons Cons.IH [of "Suc idx" rest]
        by (auto split: sum.splits)
    qed
  qed
qed

lemma mapSections_succeeds:
  "\<forall>x \<in> set xs. \<not> nullish x \<Longrightarrow> \<exists>ss. mapSections idx xs = Inr ss"
  using mapSections_fails [of idx xs] by (cases "mapSections idx xs") auto

lemma planDetailPage_Inr_iff:
  "planDetailPage pd env = Inr secs \<longleftrightarrow>
     (\<exists>key entries. getNanoBananaApiKey (plan_apiKey env) = Inr key
        \<and> responseSections env = Inr (JArr entries) \<and> mapSections 0 entries = Inr secs)"
  by (auto simp: planDetailPage_def split: sum.splits jsval.splits)

text \<open>
  Claim C2, amended. \<^verbatim>\<open>planDetailPage\<close> does not compare the length of the returned list
  with the role sequence. It returns a list of sections exactly when all of this holds:
  an API key is stored and is not blank; the request resolves to a response that is
  \<^verbatim>\<open>ok\<close>; its body can be read and is not \<^verbatim>\<open>null\<close>; the text of the first part of the first
  candidate (the empty string when there is none) is a string and holds a \<^verbatim>\<open>{...}\<close>; that
  stretch of text can be parsed; the parsed value is not \<^verbatim>\<open>null\<close> and its \<^verbatim>\<open>sections\<close> is an
  array; and no entry of the array is \<^verbatim>\<open>null\<close>. The list then has one section for each
  entry of the array, in order, whatever their number. In every other case planning
  fails entirely with an error and gives no list.
\<close>

theorem planning_fails_or_maps_every_entry:
  "(planDetailPage pd env = Inr secs \<longleftrightarrow>
      (\<exists>key r data t m parsed entries.
         getNanoBananaApiKey (plan_apiKey env) = Inr key
         \<and> plan_fetch env = FetchResolved r \<and> ok r \<and> json r = Inr data
         \<and> responseText data = Inr (JStr t) \<and> matchJsonObject t = Some m
         \<and> JSON_parse env m = Inr parsed
         \<and> getProp parsed (str ''sections'') = Inr (JArr entries)
         \<and> (\<forall>x \<in> set entries. \<not> nullish x)
         \<and> length secs = length entries
         \<and> (\<forall>i < length entries. toSection i (entries ! i) = Inr (secs ! i))))
   \<and> (isl (planDetailPage pd env) \<longleftrightarrow>
        \<not> (\<exists>key r data t m parsed entries.
             getNanoBananaApiKey (plan_apiKey env) = Inr key
             \<and> plan_fetch env = FetchResolved r \<and> ok r \<and> json r = Inr data
             \<and> responseText data = Inr (JStr t) \<and> matchJsonObject t = Some m
             \<and> JSON_parse env m = Inr parsed
             \<and> getProp parsed (str ''sections'') = Inr (JArr entries)
             \<and> (\<forall>x \<in> set entries. \<not> nullish x)))"
proof -
  have returns: "planDetailPage pd env = Inr ss \<longleftrightarrow>
      (\<exists>key r data t m parsed entries.
         getNanoBananaApiKey (plan_apiKey env) = Inr key
         \<and> plan_fetch env = FetchResolved r \<and> ok r \<and> json r = Inr data
         \<and> responseText data = Inr (JStr t) \<and> matchJsonObject t = Some m
         \<and> JSON_parse env m = Inr parsed
         \<and> getProp parsed (str ''sections'') = Inr (JArr entries)
         \<and> (\<forall>x \<in> set entries. \<not> nullish x)
         \<and> length ss = length entries
         \<and> (\<forall>i < length entries. toSection i (entries ! i) = Inr (ss ! i)))" for ss
    unfolding planDetailPage_Inr_iff responseSections_Inr_iff mapSections_Inr_iff
    by (simp only: add_0) blast
  have "isl (planDetailPage pd env) \<longleftrightarrow> \<not> (\<exists>ss. planDetailPage pd env = Inr ss)"
    by (cases "planDetailPage pd env") simp_all
  also have "(\<exists>ss. planDetailPage pd env = Inr ss) \<longleftrightarrow>
      (\<exists>key r data t m parsed entries.
             getNanoBananaApiKey (plan_apiKey env) = Inr key
             \<and> plan_fetch env = FetchResolved r \<and> ok r \<and> json r = Inr data
             \<and> responseText data = Inr (JStr t) \<and> matchJsonObject t = Some m
             \<and> JSON_parse env m = Inr parsed
             \<and> getProp parsed (str ''sections'') = Inr (JArr entries)
             \<and> (\<forall>x \<in> set entries. \<not> nullish x))"
    (is "?L \<longleftrightarrow> ?R")
  proof
    assume ?L
    then show ?R unfolding returns by blast
  next
    assume ?R
    then obtain key r data t m parsed entries where
      chain: "getNanoBananaApiKey (plan_apiKey env) = Inr key"
        "plan_fetch env = FetchResolved r" "ok r" "json r = Inr data"
        "responseText data = Inr (JStr t)" "matchJsonObject t = Some m"
        "JSON_parse env m = Inr parsed"
        "getProp parsed (str ''sections'') = Inr (JArr entries)"
      and entries: "\<forall>x \<in> set entries. \<not> nullish x"
      by blast
    from mapSections_succeeds [OF entries, of 0] obtain ss where
      "mapSections 0 entries = Inr ss" by blast
    with chain show ?L
      unfolding planDetailPage_Inr_iff responseSections_Inr_iff by blast
  qed
  finally show ?thesis
    using returns [of secs] by blast
qed

lemma textResponse_parts:
  "plan_apiKey (planWith t) = Some (str ''key'')"
  "plan_fetch (planWith t) = FetchResolved (textResponseRecord t)"
  "ok (textResponseRecord t)"
  "json (textResponseRecord t) = Inr (textBody t)"
  "JSON_parse (planWith t) = exampleParse"
  by (simp_all add: planWith_def textResponse_def textResponseRecord_def textBody_def)

lemma responseText_textBody: "t \<noteq> [] \<Longrightarrow> responseText (textBody t) = Inr (JStr t)"
  by (simp add: responseText_def textBody_def optProp_def orElse_def str_def)

theorem planning_fails_or_maps_every_entry_witness:
  "planDetailPage thumbnailProduct (planWith fiveRolesText) = Inr fivePlanned
   \<and> isl (planDetailPage thumbnailProduct ((planWith fiveRolesText)\<lparr>plan_apiKey := None\<rparr>))
   \<and> isl (planDetailPage thumbnailProduct
            (planFetching (FetchRejected (JsError (str ''TypeError'') (str ''Failed to fetch'')))))
   \<and> isl (planDetailPage thumbnailProduct (planFetching (FetchResolved serverError)))
   \<and> isl (planDetailPage thumbnailProduct (planFetching (FetchResolved unreadableBody)))
   \<and> isl (planDetailPage thumbnailProduct (planFetching (FetchResolved nullBody)))
   \<and> isl (planDetailPage thumbnailProduct (planFetching (FetchResolved numericText)))
   \<and> isl (planDetailPage thumbnailProduct (planWith (str ''Sorry, I cannot help.'')))
   \<and> isl (planDetailPage thumbnailProduct (planWith (str ''Here: {sections: none}'')))
   \<and> isl (planDetailPage thumbnailProduct (planWith (str ''{}'')))
   \<and> isl (planDetailPage thumbnailProduct (planWith nullEntryText))"
proof -
  note returns = planning_fails_or_maps_every_entry [THEN conjunct1, THEN iffD2]
  note fails = planning_fails_or_maps_every_entry [THEN conjunct2, THEN iffD2]
  let ?entries = "[roleEntry ''hook'', roleEntry ''solution'', roleEntry ''clarity'',
                   roleEntry ''service'', roleEntry ''riskReversal'']"
  have key: "getNanoBananaApiKey (Some (str ''key'')) = Inr (str ''key'')"
    by code_simp
  have five: "fiveRolesText \<noteq> []" "matchJsonObject fiveRolesText = Some fiveRolesText"
    "exampleParse fiveRolesText = Inr (JObj [(str ''sections'', JArr ?entries)])"
    "getProp (JObj [(str ''sections'', JArr ?entries)]) (str ''sections'') = Inr (JArr ?entries)"
    by code_simp+
  have e0: "toSection 0 (?entries ! 0) = Inr (fivePlanned ! 0)" by code_simp
  have e1: "toSection 1 (?entries ! 1) = Inr (fivePlanned ! 1)" by code_simp
  have e2: "toSection 2 (?entries ! 2) = Inr (fivePlanned ! 2)" by code_simp
  have e3: "toSection 3 (?entries ! 3) = Inr (fivePlanned ! 3)" by code_simp
  have e4: "toSection 4 (?entries ! 4) = Inr (fivePlanned ! 4)" by code_simp
  have each: "toSection i (?entries ! i) = Inr (fivePlanned ! i)" if "i < 5" for i
  proof -
    from that consider "i = 0" | "i = 1" | "i = 2" | "i = 3" | "i = 4" by linarith
    then show ?thesis
    proof cases
      case 1 with e0 show ?thesis by (simp only:)
    next
      case 2 with e1 show ?thesis by (simp only:)
    next
      case 3 with e2 show ?thesis by (simp only:)
    next
      case 4 with e3 show ?thesis by (simp only:)
    next
      case 5 with e4 show ?thesis by (simp only:)
    qed
  qed
  have present: "\<forall>x \<in> set ?entries. \<not> nullish x"
    by (simp add: roleEntry_def)
  have a: "planDetailPage thumbnailProduct (planWith fiveRolesText) = Inr fivePlanned"
  proof (rule returns, intro exI conjI)
    show "getNanoBananaApiKey (plan_apiKey (planWith fiveRolesText)) = Inr (str ''key'')"
      by (simp add: textResponse_parts key)
    show "plan_fetch (planWith fiveRolesText) = FetchResolved (textResponseRecord fiveRolesText)"
      by (simp add: textResponse_parts)
    show "ok (textResponseRecord fiveRolesText)"
      by (simp add: textResponse_parts)
    show "json (textResponseRecord fiveRolesText) = Inr (textBody fiveRolesText)"
      by (simp add: textResponse_parts)
    show "responseText (textBody fiveRolesText) = Inr (JStr fiveRolesText)"
      by (simp add: responseText_textBody five)
    show "matchJsonObject fiveRolesText = Some fiveRolesText"
      by (rule five)
    show "JSON_parse (planWith fiveRolesText) fiveRolesText
            = Inr (JObj [(str ''sections'', JArr ?entries)])"
      by (simp add: textResponse_parts five)
    show "getProp (JObj [(str ''sections'', JArr ?entries)]) (str ''sections'')
            = Inr (JArr ?entries)"
      by (rule five)
    show "\<forall>x \<in> set ?entries. \<not> nullish x"
      by (rule present)
    show "length fivePlanned = length ?entries"
      by (simp add: fivePlanned_def)
    show "\<forall>i < length ?entries. toSection i (?entries ! i) = Inr (fivePlanned ! i)"
      using each by simp
  qed
  have b: "isl (planDetailPage thumbnailProduct ((planWith fiveRolesText)\<lparr>plan_apiKey := None\<rparr>))"
    by (rule fails) (simp add: getNanoBananaApiKey_def)
  have c: "isl (planDetailPage thumbnailProduct
            (planFetching (FetchRejected (JsError (str ''TypeError'') (str ''Failed to fetch'')))))"
    by (rule fails) (simp add: planFetching_def)
  have d: "isl (planDetailPage thumbnailProduct (planFetching (FetchResolved serverError)))"
    by (rule fails) (simp add: planFetching_def serverError_def)
  have e: "isl (planDetailPage thumbnailProduct (planFetching (FetchResolved unreadableBody)))"
    by (rule fails) (simp add: planFetching_def unreadableBody_def)
  have f: "isl (planDetailPage thumbnailProduct (planFetching (FetchResolved nullBody)))"
    by (rule fails) (simp add: planFetching_def nullBody_def responseText_def)
  have numeric: "json numericText = Inr numericBody" "ok numericText"
    "responseText numericBody = Inr (JNum 5)"
    by code_simp+
  have g: "isl (planDetailPage thumbnailProduct (planFetching (FetchResolved numericText)))"
    by (rule fails) (use numeric in \<open>auto simp: planFetching_def\<close>)
  have refusal: "str ''Sorry, I cannot help.'' \<noteq> []"
    "matchJsonObject (str ''Sorry, I cannot help.'') = None"
    by code_simp+
  have h: "isl (planDetailPage thumbnailProduct (planWith (str ''Sorry, I cannot help.'')))"
    by (rule fails) (simp add: textResponse_parts responseText_textBody refusal)
  have here_text: "str ''Here: {sections: none}'' \<noteq> []"
    "matchJsonObject (str ''Here: {sections: none}'') = Some (str ''{sections: none}'')"
    "isl (exampleParse (str ''{sections: none}''))"
    by code_simp+
  have i: "isl (planDetailPage thumbnailProduct (planWith (str ''Here: {sections: none}'')))"
    by (rule fails) (use here_text in \<open>auto simp: textResponse_parts responseText_textBody\<close>)
  have empty_object: "str ''{}'' \<noteq> []" "matchJsonObject (str ''{}'') = Some (str ''{}'')"
    "exampleParse (str ''{}'') = Inr (JObj [])"
    by code_simp+
  have j: "isl (planDetailPage thumbnailProduct (planWith (str ''{}'')))"
    by (rule fails) (use empty_object in \<open>auto simp: textResponse_parts responseText_textBody\<close>)
  have null_text: "nullEntryText \<noteq> []" "matchJsonObject nullEntryText = Some nullEntryText"
    "exampleParse nullEntryText = Inr (JObj [(str ''sections'', JArr [roleEntry ''hook'', JNull])])"
    "getProp (JObj [(str ''sections'', JArr [roleEntry ''hook'', JNull])]) (str ''sections'')
       = Inr (JArr [roleEntry ''hook'', JNull])"
    by code_simp+
  have k: "isl (planDetailPage thumbnailProduct (planWith nullEntryText))"
    by (rule fails) (use null_text in \<open>auto simp: textResponse_parts responseText_textBody\<close>)
  from a b c d e f g h i j k show ?thesis
    by simp
qed

text \<open>
  Claim C2 as it stands has planning fail when the list has another length than the role
  sequence. Here five roles are asked for and the response lists one entry: planning
  succeeds and returns one section.
\<close>

theorem short_plan_is_accepted_counterexample:
  "logicSequence thumbnailProduct =
     Some [str ''hook'', str ''solution'', str ''clarity'', str ''service'', str ''riskReversal'']
   \<and> responseSections (planWith oneRoleText) = Inr (JArr [roleEntry ''comparison''])
   \<and> planDetailPage thumbnailProduct (planWith oneRoleText)
       = Inr [plannedSection 1 ''comparison'']"
  by code_simp

subsection \<open>Ordinary failures in a batch\<close>

lemma store_without_url:
  "generateImageWithAPIYI (mainReferenceImages thumbnailProduct)
     (okImage\<lparr>cloudinary := UploadOk (Inr (JObj []))\<rparr>) = Inr JUndefined"
  by code_simp

text \<open>
  Claim C3 says that a batch in which some sections fail for another reason than the
  credit error, and the thumbnail fails too, does not throw and returns every section,
  the failed ones without image. The \<^verbatim>\<open>catch\<close> inside \<^verbatim>\<open>generateFullDetailPage\<close> is there to
  take every such failure, but before it returns the section it logs
  \<^verbatim>\<open>`Section ${section.order} generation failed:`\<close>, and \<^verbatim>\<open>section.order\<close> is whatever the
  planning response holds there. In the run below the plan has one section, whose
  \<^verbatim>\<open>order\<close> is the object \<^verbatim>\<open>{"toString":1}\<close>; its image request is answered with status
  500, which is not the credit error, and so is the thumbnail request. Printing the
  order throws a \<^verbatim>\<open>TypeError\<close> inside the \<^verbatim>\<open>catch\<close>, the callback rejects, and the whole
  call rejects instead of returning a page with one section without image. (With an
  \<^verbatim>\<open>order\<close> and a \<^verbatim>\<open>visualPrompt\<close> that can be printed in every planned section the page
  is returned whatever the requests do: \<open>generateFullDetailPage_after_plan\<close>.)
\<close>

theorem failure_with_unprintable_order_rejects:
  "planDetailPage thumbnailProduct (planning unprintableOrderBatch)
     = Inr [(plannedSection 1 ''hook'')\<lparr>section_order := JObj [(str ''toString'', JNum 1)]\<rparr>]
   \<and> sectionRequest thumbnailProduct unprintableOrderBatch 0
       = Inl (Error (MSG_API_ERROR_PREFIX @ str ''HTTP 500''))
   \<and> err_message (Error (MSG_API_ERROR_PREFIX @ str ''HTTP 500'')) \<noteq> CREDITS_INSUFFICIENT
   \<and> isl (thumbnailRequest thumbnailProduct unprintableOrderBatch)
   \<and> toString (JObj [(str ''toString'', JNum 1)]) = Inl TypeError
   \<and> generateFullDetailPage thumbnailProduct unprintableOrderBatch = Inl TypeError"
  by code_simp

subsection \<open>Page length\<close>

text \<open>
  Claim C4. The page length is a function of the requested length, the price and the
  category alone. When the requested length is \<^verbatim>\<open>'auto'\<close>, it is 9 if the price is above
  100000 or the category is beauty/cosmetics or digital/IT, otherwise 7 if the price is
  above 30000, otherwise 5; both comparisons are strict, so a price of exactly 100000 or
  exactly 30000 gives the lower tier. An explicit 5, 7 or 9 is used unchanged.
\<close>

theorem targetLength_resolution:
  "(pageLength pd = Some Auto \<longrightarrow>
      targetLength pd =
        (if 100000 < price pd \<or> category pd = Some CATEGORY_BEAUTY
            \<or> category pd = Some CATEGORY_DIGITAL then 9
         else if 30000 < price pd then 7 else 5))
   \<and> (pageLength pd = Some Auto \<and> price pd = 100000 \<and> category pd \<noteq> Some CATEGORY_BEAUTY
        \<and> category pd \<noteq> Some CATEGORY_DIGITAL \<longrightarrow> targetLength pd = 7)
   \<and> (pageLength pd = Some Auto \<and> price pd = 30000 \<and> category pd \<noteq> Some CATEGORY_BEAUTY
        \<and> category pd \<noteq> Some CATEGORY_DIGITAL \<longrightarrow> targetLength pd = 5)
   \<and> (pageLength pd = Some Len5 \<longrightarrow> targetLength pd = 5)
   \<and> (pageLength pd = Some Len7 \<longrightarrow> targetLength pd = 7)
   \<and> (pageLength pd = Some Len9 \<longrightarrow> targetLength pd = 9)"
proof -
  have nonempty: "CATEGORY_BEAUTY \<noteq> []" "CATEGORY_DIGITAL \<noteq> []"
    by (simp_all add: CATEGORY_BEAUTY_def CATEGORY_DIGITAL_def)
  have auto: "targetLength pd =
        (if 100000 < price pd \<or> category pd = Some CATEGORY_BEAUTY
            \<or> category pd = Some CATEGORY_DIGITAL then 9
         else if 30000 < price pd then 7 else 5)" if "pageLength pd = Some Auto"
    using that nonempty by (cases "category pd") (auto simp: targetLength_def)
  have upper: "targetLength pd = 7"
    if "pageLength pd = Some Auto" "price pd = 100000"
       "category pd \<noteq> Some CATEGORY_BEAUTY" "category pd \<noteq> Some CATEGORY_DIGITAL"
    using auto [OF that(1)] that by simp
  have lower: "targetLength pd = 5"
    if "pageLength pd = Some Auto" "price pd = 30000"
       "category pd \<noteq> Some CATEGORY_BEAUTY" "category pd \<noteq> Some CATEGORY_DIGITAL"
    using auto [OF that(1)] that by simp
  have explicit: "pageLength pd = Some Len5 \<longrightarrow> targetLength pd = 5"
    "pageLength pd = Some Len7 \<longrightarrow> targetLength pd = 7"
    "pageLength pd = Some Len9 \<longrightarrow> targetLength pd = 9"
    by (simp_all add: targetLength_def)
  show ?thesis
    using auto upper lower explicit by blast
qed

theorem targetLength_resolution_witness:
  "targetLength (exampleProduct (Some Auto) 100000 None) = 7
   \<and> targetLength (exampleProduct (Some Auto) 30000 None) = 5
   \<and> targetLength (exampleProduct (Some Auto) 100001 None) = 9
   \<and> targetLength (exampleProduct (Some Auto) 45000 (Some CATEGORY_DIGITAL)) = 9
   \<and> targetLength (exampleProduct (Some Len5) 200000 (Some CATEGORY_BEAUTY)) = 5
   \<and> targetLength (exampleProduct (Some Len7) 0 None) = 7
   \<and> targetLength (exampleProduct (Some Len9) 0 None) = 9"
proof -
  have fields [simp]: "pageLength (exampleProduct len p cat) = len"
    "price (exampleProduct len p cat) = p" "category (exampleProduct len p cat) = cat"
    for len p cat
    by (simp_all add: exampleProduct_def)
  have a: "targetLength (exampleProduct (Some Auto) 100000 None) = 7"
    using targetLength_resolution [of "exampleProduct (Some Auto) 100000 None"] by simp
  have b: "targetLength (exampleProduct (Some Auto) 30000 None) = 5"
    using targetLength_resolution [of "exampleProduct (Some Auto) 30000 None"] by simp
  have c: "targetLength (exampleProduct (Some Auto) 100001 None) = 9"
    using targetLength_resolution [of "exampleProduct (Some Auto) 100001 None"] by simp
  have d: "targetLength (exampleProduct (Some Auto) 45000 (Some CATEGORY_DIGITAL)) = 9"
    using targetLength_resolution [of "exampleProduct (Some Auto) 45000 (Some CATEGORY_DIGITAL)"]
    by simp
  have e: "targetLength (exampleProduct (Some Len5) 200000 (Some CATEGORY_BEAUTY)) = 5"
    using targetLength_resolution [of "exampleProduct (Some Len5) 200000 (Some CATEGORY_BEAUTY)"]
    by simp
  have f: "targetLength (exampleProduct (Some Len7) 0 None) = 7"
    using targetLength_resolution [of "exampleProduct (Some Len7) 0 None"] by simp
  have g: "targetLength (exampleProduct (Some Len9) 0 None) = 9"
    using targetLength_resolution [of "exampleProduct (Some Len9) 0 None"] by simp
  show ?thesis
    using a b c d e f g by simp
qed

subsection \<open>Planning: the roles\<close>

lemma targetLength_range: "targetLength pd \<in> {5, 7, 9}"
  by (simp add: targetLength_def split: option.split PageLength.split)

lemma logicSequence_length:
  "\<exists>roles. logicSequence pd = Some roles \<and> length roles = targetLength pd"
  using targetLength_range [of pd] by (auto simp: logicSequence_def SALES_LOGIC_FRAMEWORK_def)

lemma toSection_logicType:
  "toSection i x = Inr s \<Longrightarrow> logicType s = optProp x (str ''logicType'')"
  by (auto simp: toSection_def split: if_splits)

text \<open>
  Claim C5, amended. For every resolved page length in \<open>{5, 7, 9}\<close> the role sequence named
  in the request is that length's fixed ordered template and has exactly that many
  entries (for length 9: hook, solution, clarity, socialProof, service, brandStory,
  comparison, riskReversal, service). \<^verbatim>\<open>planDetailPage\<close> produces one section for each
  entry of the list in the response, and the \<open>i\<close>-th section's \<^verbatim>\<open>logicType\<close> is the one the
  \<open>i\<close>-th entry gives. So, when the response lists the template's roles in order, it
  produces exactly that many sections, the \<open>i\<close>-th with the \<open>i\<close>-th role of the template;
  the code does not make the response do so.
\<close>

theorem sections_follow_the_response:
  "targetLength pd \<in> {5, 7, 9}
   \<and> (\<exists>roles. logicSequence pd = Some roles \<and> length roles = targetLength pd)
   \<and> SALES_LOGIC_FRAMEWORK 9 =
       Some [str ''hook'', str ''solution'', str ''clarity'', str ''socialProof'',
             str ''service'', str ''brandStory'', str ''comparison'', str ''riskReversal'',
             str ''service'']
   \<and> (planDetailPage pd env = Inr secs \<and> responseSections env = Inr (JArr entries) \<longrightarrow>
        length secs = length entries
        \<and> map logicType secs = map (\<lambda>x. optProp x (str ''logicType'')) entries)
   \<and> (planDetailPage pd env = Inr secs \<and> responseSections env = Inr (JArr entries)
        \<and> logicSequence pd = Some roles
        \<and> map (\<lambda>x. optProp x (str ''logicType'')) entries = map JStr roles \<longrightarrow>
        length secs = targetLength pd \<and> map logicType secs = map JStr roles)"
proof -
  have follow: "length secs = length entries
        \<and> map logicType secs = map (\<lambda>x. optProp x (str ''logicType'')) entries"
    if plan: "planDetailPage pd env = Inr secs"
      and resp: "responseSections env = Inr (JArr entries)"
  proof -
    note facts = planDetailPage_entries [OF plan resp]
    have "logicType (secs ! i) = optProp (entries ! i) (str ''logicType'')"
      if "i < length entries" for i
      using facts(2) that by (auto intro: toSection_logicType)
    with facts(1) show ?thesis
      by (auto intro: nth_equalityI)
  qed
  have template: "length secs = targetLength pd \<and> map logicType secs = map JStr roles"
    if plan: "planDetailPage pd env = Inr secs"
      and resp: "responseSections env = Inr (JArr entries)"
      and roles: "logicSequence pd = Some roles"
      and same: "map (\<lambda>x. optProp x (str ''logicType'')) entries = map JStr roles"
  proof -
    from same have "length entries = length roles"
      using length_map [of "\<lambda>x. optProp x (str ''logicType'')" entries] by simp
    moreover from logicSequence_length [of pd] roles have "length roles = targetLength pd"
      by auto
    ultimately show ?thesis
      using follow [OF plan resp] same by simp
  qed
  have nine: "SALES_LOGIC_FRAMEWORK 9 =
       Some [str ''hook'', str ''solution'', str ''clarity'', str ''socialProof'',
             str ''service'', str ''brandStory'', str ''comparison'', str ''riskReversal'',
             str ''service'']"
    by (simp add: SALES_LOGIC_FRAMEWORK_def)
  show ?thesis
    using targetLength_range [of pd] logicSequence_length [of pd] nine follow template
    by blast
qed

theorem sections_follow_the_response_witness:
  "planDetailPage thumbnailProduct (planWith fiveRolesText) = Inr fivePlanned
   \<and> logicSequence thumbnailProduct =
       Some [str ''hook'', str ''solution'', str ''clarity'', str ''service'', str ''riskReversal'']
   \<and> targetLength thumbnailProduct = 5
   \<and> length fivePlanned = 5
   \<and> map logicType fivePlanned =
       map JStr [str ''hook'', str ''solution'', str ''clarity'', str ''service'',
                 str ''riskReversal'']"
proof -
  note main = sections_follow_the_response
  note template = main [THEN conjunct2, THEN conjunct2, THEN conjunct2, THEN conjunct2, rule_format]
  have resp: "responseSections (planWith fiveRolesText) =
      Inr (JArr [roleEntry ''hook'', roleEntry ''solution'', roleEntry ''clarity'',
                 roleEntry ''service'', roleEntry ''riskReversal''])"
    by code_simp
  have roles: "logicSequence thumbnailProduct =
       Some [str ''hook'', str ''solution'', str ''clarity'', str ''service'', str ''riskReversal'']"
    by code_simp
  have same: "map (\<lambda>x. optProp x (str ''logicType''))
                [roleEntry ''hook'', roleEntry ''solution'', roleEntry ''clarity'',
                 roleEntry ''service'', roleEntry ''riskReversal'']
              = map JStr [str ''hook'', str ''solution'', str ''clarity'', str ''service'',
                          str ''riskReversal'']"
    by code_simp
  have five: "targetLength thumbnailProduct = 5"
    by code_simp
  from template [of thumbnailProduct "planWith fiveRolesText" fivePlanned _ _, OF conjI [OF example_plan conjI [OF resp conjI [OF roles same]]]]
  have "length fivePlanned = targetLength thumbnailProduct"
    and "map logicType fivePlanned =
       map JStr [str ''hook'', str ''solution'', str ''clarity'', str ''service'',
                 str ''riskReversal'']"
    by simp_all
  with example_plan roles five show ?thesis
    by simp
qed

text \<open>
  Claim C5 as it stands has \<^verbatim>\<open>planDetailPage\<close> produce exactly as many sections as the
  resolved length, with the template's roles. Here the length is 5 and the template
  starts with hook; the response lists one entry with the role comparison, and one
  section with that role is produced.
\<close>

theorem roles_not_enforced_counterexample:
  "targetLength thumbnailProduct = 5
   \<and> SALES_LOGIC_FRAMEWORK 5 =
       Some [str ''hook'', str ''solution'', str ''clarity'', str ''service'', str ''riskReversal'']
   \<and> map_sum err_message (map logicType) (planDetailPage thumbnailProduct (planWith oneRoleText))
       = Inr [JStr (str ''comparison'')]"
  by code_simp

subsection \<open>A failed regeneration\<close>

lemma regenerateSection_fails:
  "isl (generateImageWithAPIYI (mainReferenceImages pd) env) \<Longrightarrow> isl (regenerateSection s pd env)"
  by (auto simp: regenerateSection_def generateSectionImage_cases split: sum.splits)

lemma finalState_after_failure:
  assumes page: "generatedPage st = Some page"
    and present: "\<exists>s \<in> set (sections page). section_id s = sid"
    and fails: "isl (generateImageWithAPIYI (mainReferenceImages (productData st)) env)"
  shows "finalState st (handleSectionRegenerate st sid env)
           = clearGenerating sid (markGenerating sid st)"
    and "alerted (handleSectionRegenerate st sid env) \<noteq> None"
proof -
  from present obtain s where s: "find (\<lambda>s. section_id s = sid) (sections page) = Some s"
    by (cases "find (\<lambda>s. section_id s = sid) (sections page)") (auto simp: find_None_iff)
  from regenerateSection_fails [OF fails, of s] obtain e where
    e: "regenerateSection s (productData st) env = Inl e"
    by (cases "regenerateSection s (productData st) env") auto
  from page s e show "finalState st (handleSectionRegenerate st sid env)
           = clearGenerating sid (markGenerating sid st)"
    by (simp add: handleSectionRegenerate_def finalState_def Let_def)
  from page s e show "alerted (handleSectionRegenerate st sid env) \<noteq> None"
    by (simp add: handleSectionRegenerate_def Let_def)
qed

text \<open>
  Claim C6. Take a page that holds a section with the given id, and let the image request
  of a regeneration of that section fail. Then the handler ends in a state in which every
  section with that id has \<^verbatim>\<open>isGenerating = false\<close> and the very \<^verbatim>\<open>imageUrl\<close> it had
  before, so a section that had an image still has that image; and the failure is
  reported by an alert. (A failed request never stores the placeholder: the regeneration
  throws for every failure.)
\<close>

theorem failed_regenerate_keeps_image:
  assumes page: "generatedPage st = Some page"
    and present: "\<exists>s \<in> set (sections page). section_id s = sid"
    and fails: "isl (generateImageWithAPIYI (mainReferenceImages (productData st)) env)"
  shows "case generatedPage (finalState st (handleSectionRegenerate st sid env)) of
           None \<Rightarrow> False
         | Some page' \<Rightarrow>
             list_all2 (\<lambda>a b. section_id a = sid \<longrightarrow>
                                imageUrl b = imageUrl a \<and> isGenerating b = Some False)
               (sections page) (sections page')
             \<and> alerted (handleSectionRegenerate st sid env) \<noteq> None"
proof -
  have "list_all2 (\<lambda>a b. section_id a = sid \<longrightarrow>
                           imageUrl b = imageUrl a \<and> isGenerating b = Some False)
          (sections page)
          (map ((\<lambda>s. if section_id s = sid then s\<lparr>isGenerating := Some False\<rparr> else s)
                \<circ> (\<lambda>s. if section_id s = sid then s\<lparr>isGenerating := Some True\<rparr> else s))
             (sections page))"
    by (simp add: list_all2_map2 list_all2_same)
  with page finalState_after_failure [OF page present fails] show ?thesis
    by (simp add: clearGenerating_def markGenerating_def updateSections_def)
qed

theorem failed_regenerate_keeps_image_witness:
  "isl (generateImageWithAPIYI (mainReferenceImages (productData exampleState)) (failingImage 500))
   \<and> imageUrl remoteSection = JStr (str ''https://res.cloudinary.com/demo/hero.png'')
   \<and> finalState exampleState
        (handleSectionRegenerate exampleState (str ''section-1'') (failingImage 500))
       = exampleState
   \<and> (case generatedPage (finalState exampleState
             (handleSectionRegenerate exampleState (str ''section-1'') (failingImage 500))) of
         None \<Rightarrow> False
       | Some page' \<Rightarrow>
           list_all2 (\<lambda>a b. section_id a = str ''section-1'' \<longrightarrow>
                              imageUrl b = imageUrl a \<and> isGenerating b = Some False)
             [remoteSection, inlineSection] (sections page')
           \<and> alerted (handleSectionRegenerate exampleState (str ''section-1'') (failingImage 500))
               \<noteq> None)"
proof -
  have page: "generatedPage exampleState
      = Some \<lparr>sections = [remoteSection, inlineSection],
              thumbnail = Some \<lparr>thumbnailUrl = JStr (str ''https://res.cloudinary.com/demo/t.png''),
                                thumbnailPrompt = str ''Wireless Earbuds thumbnail''\<rparr>\<rparr>"
    by (simp add: exampleState_def)
  have present: "\<exists>s \<in> set (sections \<lparr>sections = [remoteSection, inlineSection],
              thumbnail = Some \<lparr>thumbnailUrl = JStr (str ''https://res.cloudinary.com/demo/t.png''),
                                thumbnailPrompt = str ''Wireless Earbuds thumbnail''\<rparr>\<rparr>).
                   section_id s = str ''section-1''"
    by code_simp
  have fails: "isl (generateImageWithAPIYI (mainReferenceImages (productData exampleState))
                      (failingImage 500))"
    by code_simp
  have image: "imageUrl remoteSection = JStr (str ''https://res.cloudinary.com/demo/hero.png'')"
    by code_simp
  have final: "finalState exampleState
        (handleSectionRegenerate exampleState (str ''section-1'') (failingImage 500))
       = exampleState"
    by code_simp
  from failed_regenerate_keeps_image [OF page present fails] fails image final
  show ?thesis by (auto split: option.splits)
qed

subsection \<open>The HTML export\<close>

lemma processNode_blocks:
  "processNode n = concat (map blockMarkup (processBlocks n))"
  "processNodes ks = concat (map blockMarkup (processBlocksOf ks))"
  by (induction n and ks rule: processNode_processNodes.induct) simp_all

lemma removeAmong_strip:
  "removeAll TagSvg (removeAll TagLabel (removeAll TagInput (removeAll TagButton n))) = strip n"
  "removeAmong TagSvg (removeAmong TagLabel (removeAmong TagInput (removeAmong TagButton ks)))
     = stripAmong ks"
  by (induction n and ks rule: strip_stripAmong.induct) simp_all

lemma stripControls_strip: "stripControls n = strip n"
  by (simp add: stripControls_def removeAmong_strip)

lemma stripAmong_append: "stripAmong (xs @ ys) = stripAmong xs @ stripAmong ys"
proof (induction xs)
  case Nil
  then show ?case by simp
next
  case (Cons x xs)
  then show ?case by (cases x) simp_all
qed

lemma processBlocksOf_append:
  "processBlocksOf (xs @ ys) = processBlocksOf xs @ processBlocksOf ys"
  by (induction xs) simp_all

lemma blocksOf_simps:
  "blocksOf [] = []"
  "blocksOf (xs @ ys) = blocksOf xs @ blocksOf ys"
  "blocksOf (TextNode s # ks) = processBlocks (TextNode s) @ blocksOf ks"
  "blocksOf (Element t a kids # ks) =
     (if t \<in> {TagButton, TagInput, TagLabel, TagSvg} then blocksOf ks
      else processBlocks (Element t a (stripAmong kids)) @ blocksOf ks)"
  by (simp_all add: blocksOf_def stripAmong_append processBlocksOf_append)

lemma blocksOf_Cons: "blocksOf (k # ks) = blocksOf [k] @ blocksOf ks"
  using blocksOf_simps(2) [of "[k]" ks] by simp

lemma blocksOf_member: "k \<in> set ks \<Longrightarrow> set (blocksOf [k]) \<subseteq> set (blocksOf ks)"
proof (induction ks)
  case Nil
  then show ?case by simp
next
  case (Cons x xs)
  then show ?case using blocksOf_Cons [of x xs] by auto
qed

lemma exportBlocks_div:
  "exportBlocks (element TagDiv kids) = blocksOf kids"
  by (simp add: exportBlocks_def stripControls_strip element_def blocksOf_def)

lemma stripAmong_Button:
  "tagOf n = Some TagButton \<Longrightarrow> stripAmong (n # ks) = stripAmong ks"
  by (cases n) (simp_all add: tagOf_def)

lemma textContents_textChild [simp]: "textContents (textChild s) = s"
  by (simp add: textChild_def)

lemma stripAmong_textChild [simp]: "stripAmong (textChild s) = textChild s"
  by (simp add: textChild_def)

lemma imagesOf_simps:
  "imagesOf [] = []"
  "imagesOf (xs @ ys) = imagesOf xs @ imagesOf ys"
  "imagesOf (Image u # bs) = u # imagesOf bs"
  "imagesOf (PlainText t # bs) = imagesOf bs"
  "imagesOf (Heading1 t # bs) = imagesOf bs"
  "imagesOf (Heading2 t # bs) = imagesOf bs"
  "imagesOf (Paragraph t # bs) = imagesOf bs"
  by (simp_all add: imagesOf_def)

lemma titlesOf_simps:
  "titlesOf [] = []"
  "titlesOf (xs @ ys) = titlesOf xs @ titlesOf ys"
  "titlesOf (Heading1 t # bs) = t # titlesOf bs"
  "titlesOf (PlainText t # bs) = titlesOf bs"
  "titlesOf (Image u # bs) = titlesOf bs"
  "titlesOf (Heading2 t # bs) = titlesOf bs"
  "titlesOf (Paragraph t # bs) = titlesOf bs"
  by (simp_all add: titlesOf_def)

lemma exportedImage_keepsImage:
  "exportedImage s \<longleftrightarrow> hasImage s \<and> keepsImage (Some (shownText (imageUrl s)))"
  by (cases "imageUrl s") (auto simp: exportedImage_def hasImage_def keepsImage_def shownText_def)

text \<open>What each part of the preview gives: images and first-level headings.\<close>

lemma control_blocks:
  assumes "\<forall>c l d kids. tagOf (Button env c l d kids) = Some TagButton"
  shows "imagesOf (blocksOf [ImageFeedbackControl env s i]) = []"
    and "titlesOf (blocksOf [ImageFeedbackControl env s i]) = []"
proof -
  have button: "stripAmong (Button env c l d kids # ks) = stripAmong ks" for c l d kids ks
    using assms by (simp add: stripAmong_Button)
  show "imagesOf (blocksOf [ImageFeedbackControl env s i]) = []"
    by (simp add: ImageFeedbackControl_def Let_def element_def icon_def blocksOf_def button
        imagesOf_simps processBlocksOf_append stripAmong_append textChild_def)
  show "titlesOf (blocksOf [ImageFeedbackControl env s i]) = []"
    by (simp add: ImageFeedbackControl_def Let_def element_def icon_def blocksOf_def button
        titlesOf_simps processBlocksOf_append stripAmong_append textChild_def)
qed

lemma keepsText_empty: "\<not> keepsText (trim [])"
  by (simp add: keepsText_def trim_def)

lemma blocksOf_parts:
  "blocksOf (element TagDiv kids # ks) = blocksOf kids @ blocksOf ks"
  "blocksOf (element TagSpan kids # ks) = blocksOf kids @ blocksOf ks"
  "blocksOf (element TagTextarea kids # ks) = blocksOf kids @ blocksOf ks"
  "blocksOf (element TagButton kids # ks) = blocksOf ks"
  "blocksOf (element TagH1 kids # ks) =
     (if keepsHeading (trim (textContents (stripAmong kids)))
      then [Heading1 (trim (textContents (stripAmong kids)))] else []) @ blocksOf ks"
  "blocksOf (element TagH2 kids # ks) =
     (if keepsHeading (trim (textContents (stripAmong kids)))
      then [Heading2 (trim (textContents (stripAmong kids)))] else []) @ blocksOf ks"
  "blocksOf (element TagP kids # ks) =
     (if keepsParagraph (trim (textContents (stripAmong kids)))
      then [Paragraph (trim (textContents (stripAmong kids)))] else []) @ blocksOf ks"
  "blocksOf (Element TagImg a [] # ks) = (if keepsImage a then [Image (the a)] else [])
    @ blocksOf ks"
  "blocksOf (TextNode s # ks) =
     (if keepsText (trim s) then [PlainText (trim s)] else []) @ blocksOf ks"
  "blocksOf (textChild s) = (if keepsText (trim s) then [PlainText (trim s)] else [])"
  "blocksOf (xs @ ys) = blocksOf xs @ blocksOf ys"
  "blocksOf [] = []"
  by (simp_all add: element_def blocksOf_def stripAmong_append processBlocksOf_append textChild_def keepsText_empty)

lemma blocksOf_control:
  "blocksOf (ImageFeedbackControl env s i # k # ks)
     = blocksOf [ImageFeedbackControl env s i] @ blocksOf (k # ks)"
  by (rule blocksOf_Cons)

lemma imagesOf_if [simp]:
  "imagesOf (if c then [PlainText t] else []) = []"
  "imagesOf (if c then [Heading1 t] else []) = []"
  "imagesOf (if c then [Heading2 t] else []) = []"
  "imagesOf (if c then [Paragraph t] else []) = []"
  by (simp_all add: imagesOf_simps)

lemma titlesOf_if [simp]:
  "titlesOf (if c then [PlainText t] else []) = []"
  "titlesOf (if c then [Image t] else []) = []"
  "titlesOf (if c then [Heading2 t] else []) = []"
  "titlesOf (if c then [Paragraph t] else []) = []"
  by (simp_all add: titlesOf_simps)

lemma header_blocks:
  "imagesOf (blocksOf (headerBlock env pd h)) = []"
  "titlesOf (blocksOf (headerBlock env pd h)) =
     (if HIDE_HEADER \<notin> h \<and> HIDE_PRICING \<notin> h \<and> keepsHeading (trim (name pd))
      then [trim (name pd)] else [])"
  by (simp_all add: headerBlock_def priceText_def blocksOf_parts imagesOf_simps titlesOf_simps)

lemma cta_footer_blocks:
  "imagesOf (blocksOf (ctaBlock env pd h)) = []"
  "titlesOf (blocksOf (ctaBlock env pd h)) = []"
  "imagesOf (blocksOf (footerBlock env pd h)) = []"
  "titlesOf (blocksOf (footerBlock env pd h)) = []"
  by (simp_all add: ctaBlock_def footerBlock_def priceText_def blocksOf_parts imagesOf_simps
      titlesOf_simps)

lemma hero_blocks:
  assumes "\<forall>c l d kids. tagOf (Button env c l d kids) = Some TagButton"
  shows "imagesOf (blocksOf (heroBlock env secs h)) =
           map (shownText \<circ> imageUrl)
             (filter exportedImage (if HIDE_HERO \<in> h then [] else take 1 secs))"
    and "titlesOf (blocksOf (heroBlock env secs h)) = []"
  using control_blocks [OF assms]
  by (auto simp: heroBlock_def blocksOf_parts blocksOf_control imagesOf_simps titlesOf_simps
      spinner_def imageOf_def exportedImage_keepsImage split: list.splits)

lemma feature_blocks:
  assumes "\<forall>c l d kids. tagOf (Button env c l d kids) = Some TagButton"
  shows "imagesOf (blocksOf [featureBlock env i s]) =
           (if exportedImage s then [shownText (imageUrl s)] else [])"
    and "titlesOf (blocksOf [featureBlock env i s]) = []"
  using control_blocks [OF assms]
  by (auto simp: featureBlock_def blocksOf_parts blocksOf_control imagesOf_simps titlesOf_simps
      spinner_def imageOf_def exportedImage_keepsImage badge_def headline_def subline_def
      Let_def)

lemma usage_blocks:
  assumes "\<forall>c l d kids. tagOf (Button env c l d kids) = Some TagButton"
  shows "imagesOf (blocksOf (usageBlock env secs h)) =
           map (shownText \<circ> imageUrl)
             (filter exportedImage
                (if HIDE_USAGE \<in> h \<or> \<not> 1 < length secs then [] else [last secs]))"
    and "titlesOf (blocksOf (usageBlock env secs h)) = []"
  using control_blocks [OF assms]
  by (auto simp: usageBlock_def blocksOf_parts blocksOf_control imagesOf_simps titlesOf_simps
      spinner_def imageOf_def exportedImage_keepsImage headline_def subline_def Let_def)

lemma features_blocks:
  assumes "\<forall>c l d kids. tagOf (Button env c l d kids) = Some TagButton"
  shows "imagesOf (blocksOf (featureBlocks env secs h)) =
           map (shownText \<circ> imageUrl)
             (filter exportedImage (if HIDE_FEATURES \<in> h then [] else butlast (tl secs)))"
    and "titlesOf (blocksOf (featureBlocks env secs h)) = []"
proof -
  have each: "imagesOf (blocksOf (map (\<lambda>(idx, section). featureBlock env (idx + 1) section)
                                    (enumerate n xs)))
                = map (shownText \<circ> imageUrl) (filter exportedImage xs)
              \<and> titlesOf (blocksOf (map (\<lambda>(idx, section). featureBlock env (idx + 1) section)
                                    (enumerate n xs))) = []" for n xs
  proof (induction xs arbitrary: n)
    case Nil
    then show ?case by (simp add: blocksOf_parts imagesOf_simps titlesOf_simps)
  next
    case (Cons x xs)
    have "blocksOf (map (\<lambda>(idx, section). featureBlock env (idx + 1) section)
                     (enumerate n (x # xs)))
            = blocksOf [featureBlock env (n + 1) x]
              @ blocksOf (map (\<lambda>(idx, section). featureBlock env (idx + 1) section)
                            (enumerate (Suc n) xs))"
      unfolding enumerate_simps list.map prod.case by (rule blocksOf_Cons)
    then show ?case
      using Cons.IH [of "Suc n"] feature_blocks [OF assms, of "n + 1" x]
      by (simp add: imagesOf_simps titlesOf_simps)
  qed
  show "imagesOf (blocksOf (featureBlocks env secs h)) =
           map (shownText \<circ> imageUrl)
             (filter exportedImage (if HIDE_FEATURES \<in> h then [] else butlast (tl secs)))"
    using each by (simp add: featureBlocks_def blocksOf_parts imagesOf_simps)
  show "titlesOf (blocksOf (featureBlocks env secs h)) = []"
    using each by (simp add: featureBlocks_def blocksOf_parts titlesOf_simps)
qed

lemma keepsHeading_shown: "keepsHeading (trim s) \<Longrightarrow> s \<noteq> []"
  by (auto simp: keepsHeading_def trim_def)

lemma keepsParagraph_shown: "keepsParagraph (trim s) \<Longrightarrow> s \<noteq> []"
  by (auto simp: keepsParagraph_def trim_def)

lemma feature_copy:
  assumes "hasImage s"
  shows "keepsHeading (trim (shownText (keyMessage s))) \<Longrightarrow>
           Heading2 (trim (shownText (keyMessage s))) \<in> set (blocksOf [featureBlock env i s])"
    and "keepsParagraph (trim (shownText (subMessage s))) \<Longrightarrow>
           Paragraph (trim (shownText (subMessage s))) \<in> set (blocksOf [featureBlock env i s])"
  using assms
  by (auto simp: featureBlock_def blocksOf_parts blocksOf_control hasCopy_def headline_def
      subline_def imageOf_def dest: keepsHeading_shown keepsParagraph_shown)

lemma usage_copy:
  assumes "hasImage (last secs)" and "HIDE_USAGE \<notin> h" and "1 < length secs"
  shows "keepsHeading (trim (shownText (keyMessage (last secs)))) \<Longrightarrow>
           Heading2 (trim (shownText (keyMessage (last secs))))
             \<in> set (blocksOf (usageBlock env secs h))"
    and "keepsParagraph (trim (shownText (subMessage (last secs)))) \<Longrightarrow>
           Paragraph (trim (shownText (subMessage (last secs))))
             \<in> set (blocksOf (usageBlock env secs h))"
  using assms
  by (auto simp: usageBlock_def blocksOf_parts blocksOf_control hasCopy_def headline_def
      subline_def imageOf_def Let_def dest: keepsHeading_shown keepsParagraph_shown)

lemma feature_member:
  assumes "s \<in> set (butlast (tl secs))" and "HIDE_FEATURES \<notin> h"
  shows "\<exists>i. featureBlock env i s \<in> set (featureBlocks env secs h)"
proof -
  from assms(1) obtain j where "j < length (butlast (tl secs))" "butlast (tl secs) ! j = s"
    by (auto simp: in_set_conv_nth)
  then have "(j, s) \<in> set (enumerate 0 (butlast (tl secs)))"
    by (auto simp: in_set_enumerate_eq)
  then have "featureBlock env (j + 1) s \<in> set (featureBlocks env secs h)"
    using assms(2) by (force simp: featureBlocks_def)
  then show ?thesis ..
qed

lemma header_price:
  assumes "HIDE_HEADER \<notin> h" and "HIDE_PRICING \<notin> h"
    and "keepsText (trim (toLocaleString env (Finite (price pd))))"
  shows "PlainText (trim (toLocaleString env (Finite (price pd))))
           \<in> set (blocksOf (headerBlock env pd h))"
  using assms by (simp add: headerBlock_def priceText_def blocksOf_parts)

text \<open>The variant in \<^verbatim>\<open>part_000\<close>: one image block for each visible section with a remote image.\<close>

lemma appendSections_images:
  assumes "\<forall>s \<in> set visible. isText (imageUrl s)"
  shows "appendSections html visible =
     Inr (html
       @ concat (map (imageBlock \<circ> shownText \<circ> imageUrl) (filter isRemoteImage visible)))"
  using assms
proof (induction visible arbitrary: html)
  case Nil
  then show ?case by simp
next
  case (Cons s visible)
  from Cons.prems have typed: "isText (imageUrl s)" by simp
  have step: "appendSection html s =
      Inr (html @ (if isRemoteImage s then imageBlock (shownText (imageUrl s)) else []))"
    using typed
    by (cases "imageUrl s")
       (simp_all add: appendSection_def isRemoteImage_def isText_def shownText_def)
  from Cons.prems have "\<forall>s \<in> set visible. isText (imageUrl s)" by simp
  from Cons.IH [OF this] show ?case
    by (simp add: step)
qed

lemma variant_export:
  assumes "\<forall>s \<in> set secs. isText (imageUrl s)"
  shows "handleCopyHTML_part_000 True secs hiddenSections True =
     Copied (IMAGES_OPEN
             @ concat (map (imageBlock \<circ> shownText \<circ> imageUrl)
                         (filter isRemoteImage (visibleSections secs hiddenSections)))
             @ str ''</div>'')"
proof -
  from assms have "\<forall>s \<in> set (visibleSections secs hiddenSections). isText (imageUrl s)"
    by (simp add: visibleSections_def)
  from appendSections_images [OF this] show ?thesis
    by (simp add: handleCopyHTML_part_000_def)
qed




subsection \<open>The image store\<close>

text \<open>
  Claim C8. Storing an image that is already a remote URL returns it unchanged, without
  any upload. Storing an image whose upload fails returns the original image unchanged
  instead of raising an error, for every image: \<^verbatim>\<open>uploadToCloudinary\<close> itself throws, and
  the \<^verbatim>\<open>catch\<close> around its call in \<^verbatim>\<open>generateImageWithAPIYI\<close> answers with the inline
  image.
\<close>

theorem store_keeps_url_and_falls_back:
  "(startsWith img (str ''http'') \<longrightarrow>
      uploadToCloudinary img folder upload = Inr (JStr img)
      \<and> uploadOrKeepInline img upload = JStr img)
   \<and> (isl (uploadToCloudinary img (str ''generated-images'') upload) \<longrightarrow>
        uploadOrKeepInline img upload = JStr img)"
  by (auto simp: uploadToCloudinary_def uploadOrKeepInline_def split: sum.splits)

theorem store_keeps_url_and_falls_back_witness:
  "uploadToCloudinary (str ''https://res.cloudinary.com/demo/a.png'') (str ''ai-detail-page'')
     (UploadRejected TypeError) = Inr (JStr (str ''https://res.cloudinary.com/demo/a.png''))
   \<and> uploadOrKeepInline (str ''https://res.cloudinary.com/demo/a.png'') (UploadRejected TypeError)
       = JStr (str ''https://res.cloudinary.com/demo/a.png'')
   \<and> isl (uploadToCloudinary (str ''data:image/png;base64,QUJD'') (str ''generated-images'')
            (UploadNotOk 500 (Inr (JObj []))))
   \<and> uploadOrKeepInline (str ''data:image/png;base64,QUJD'') (UploadNotOk 500 (Inr (JObj [])))
       = JStr (str ''data:image/png;base64,QUJD'')"
proof -
  have url: "startsWith (str ''https://res.cloudinary.com/demo/a.png'') (str ''http'')"
    by code_simp
  have fails: "isl (uploadToCloudinary (str ''data:image/png;base64,QUJD'')
                      (str ''generated-images'') (UploadNotOk 500 (Inr (JObj []))))"
    by code_simp
  from store_keeps_url_and_falls_back
         [of "str ''https://res.cloudinary.com/demo/a.png''" "str ''ai-detail-page''"
             "UploadRejected TypeError"]
       url
  have a: "uploadToCloudinary (str ''https://res.cloudinary.com/demo/a.png'')
             (str ''ai-detail-page'') (UploadRejected TypeError)
             = Inr (JStr (str ''https://res.cloudinary.com/demo/a.png''))
           \<and> uploadOrKeepInline (str ''https://res.cloudinary.com/demo/a.png'')
                 (UploadRejected TypeError)
               = JStr (str ''https://res.cloudinary.com/demo/a.png'')"
    by blast
  from store_keeps_url_and_falls_back
         [of "str ''data:image/png;base64,QUJD''" "str ''generated-images''"
             "UploadNotOk 500 (Inr (JObj []))"]
       fails
  have b: "uploadOrKeepInline (str ''data:image/png;base64,QUJD'')
             (UploadNotOk 500 (Inr (JObj []))) = JStr (str ''data:image/png;base64,QUJD'')"
    by blast
  from a b fails show ?thesis by blast
qed

subsection \<open>Text styles\<close>

lemma getTextStyle_role:
  "map_of LOGIC_TYPE_STYLES key = Some d \<Longrightarrow> getTextStyle key = Descriptor d"
  by (simp add: getTextStyle_def lookupStyle_def)

lemma lookupStyle_solution: "lookupStyle (str ''solution'') = getTextStyle (str ''solution'')"
  by code_simp

lemma getTextStyle_unrecognised:
  "map_of LOGIC_TYPE_STYLES key = None \<Longrightarrow> key \<notin> set OBJECT_PROTOTYPE_KEYS \<Longrightarrow>
     getTextStyle key = getTextStyle (str ''solution'')"
  by (simp add: getTextStyle_def [of key] lookupStyle_def [of key] lookupStyle_solution)

lemma getTextStyle_inherited:
  "key \<in> set OBJECT_PROTOTYPE_KEYS \<Longrightarrow> getTextStyle key = Inherited key"
proof -
  assume key: "key \<in> set OBJECT_PROTOTYPE_KEYS"
  have "\<forall>k \<in> set OBJECT_PROTOTYPE_KEYS. map_of LOGIC_TYPE_STYLES k = None"
    by code_simp
  with key have "map_of LOGIC_TYPE_STYLES key = None" by blast
  with key show ?thesis
    by (simp add: getTextStyle_def lookupStyle_def)
qed

text \<open>
  Claim C9 says that \<^verbatim>\<open>getTextStyle\<close> returns a style descriptor for every string, and the
  descriptor of \<^verbatim>\<open>'solution'\<close> for every string that is not one of the eight roles. The
  two lemmas above give this for the roles and for every other string that does not name a
  member of \<^verbatim>\<open>Object.prototype\<close>. For such a name the code breaks the claim: the
  lookup in the object literal finds the inherited member, which is truthy, so the
  fallback after \<^verbatim>\<open>||\<close> is not taken and what is returned is no descriptor.
\<close>

theorem getTextStyle_inherited_member:
  "getTextStyle (str ''constructor'') = Inherited (str ''constructor'')
   \<and> getTextStyle (str ''constructor'') \<noteq> getTextStyle (str ''solution'')
   \<and> getTextStyle (str ''unknown-role'') = getTextStyle (str ''solution'')"
  by code_simp

subsection \<open>Regenerating one section\<close>

lemma othersUnchanged_updateSections:
  assumes "\<And>s. section_id (f s) = section_id s"
    and "\<And>s. section_id s \<noteq> sid \<Longrightarrow> f s = s"
  shows "othersUnchanged sid prev (updateSections f prev)"
proof (cases "generatedPage prev")
  case None
  then show ?thesis
    by (simp add: othersUnchanged_def updateSections_def)
next
  case (Some page)
  have "list_all2 (\<lambda>a b. section_id b = section_id a \<and> (section_id a \<noteq> sid \<longrightarrow> b = a))
          (sections page) (map f (sections page))"
    using assms by (simp add: list_all2_map2 list_all2_same)
  with Some show ?thesis
    by (simp add: othersUnchanged_def updateSections_def)
qed

lemma othersUnchanged_steps:
  "othersUnchanged sid prev (markGenerating sid prev)"
  "othersUnchanged sid prev (storeImage sid v prev)"
  "othersUnchanged sid prev (clearGenerating sid prev)"
  "othersUnchanged sid prev (replaceImage sid u prev)"
  unfolding markGenerating_def storeImage_def clearGenerating_def replaceImage_def
  by (rule othersUnchanged_updateSections; simp)+

lemma othersUnchanged_trans:
  assumes ab: "othersUnchanged sid a b" and bc: "othersUnchanged sid b c"
  shows "othersUnchanged sid a c"
proof -
  from ab have b: "b\<lparr>generatedPage := generatedPage a\<rparr> = a"
    by (simp add: othersUnchanged_def)
  from bc have c: "c\<lparr>generatedPage := generatedPage b\<rparr> = b"
    by (simp add: othersUnchanged_def)
  have "c\<lparr>generatedPage := generatedPage a\<rparr>
          = (c\<lparr>generatedPage := generatedPage b\<rparr>)\<lparr>generatedPage := generatedPage a\<rparr>"
    by simp
  then have rest: "c\<lparr>generatedPage := generatedPage a\<rparr> = a"
    using b c by simp
  show ?thesis
  proof (cases "generatedPage a")
    case None
    with ab have "generatedPage b = None"
      by (simp add: othersUnchanged_def split: option.splits)
    with bc have "generatedPage c = None"
      by (simp add: othersUnchanged_def split: option.splits)
    with None rest show ?thesis
      by (simp add: othersUnchanged_def)
  next
    case (Some p)
    with ab obtain q where q: "generatedPage b = Some q" "thumbnail q = thumbnail p"
      "list_all2 (\<lambda>x y. section_id y = section_id x \<and> (section_id x \<noteq> sid \<longrightarrow> y = x))
         (sections p) (sections q)"
      by (auto simp: othersUnchanged_def split: option.splits)
    with bc obtain r where r: "generatedPage c = Some r" "thumbnail r = thumbnail q"
      "list_all2 (\<lambda>x y. section_id y = section_id x \<and> (section_id x \<noteq> sid \<longrightarrow> y = x))
         (sections q) (sections r)"
      by (auto simp: othersUnchanged_def split: option.splits)
    from q(3) r(3)
    have "list_all2 (\<lambda>x y. section_id y = section_id x \<and> (section_id x \<noteq> sid \<longrightarrow> y = x))
            (sections p) (sections r)"
      by (rule list_all2_trans [rotated]) auto
    with Some q r rest show ?thesis
      by (simp add: othersUnchanged_def)
  qed
qed

lemma handleSectionRegenerate_trace:
  "trace (handleSectionRegenerate st sid env) = []
   \<or> (\<exists>u. trace (handleSectionRegenerate st sid env)
            = [markGenerating sid st, storeImage sid u (markGenerating sid st)])
   \<or> trace (handleSectionRegenerate st sid env)
        = [markGenerating sid st, clearGenerating sid (markGenerating sid st)]"
  by (auto simp: handleSectionRegenerate_def Let_def split: option.splits sum.splits)

text \<open>
  Claim C10. For every page state and every section id, regenerating that section changes
  at most the sections with that id. Each of its three state updates (marking
  \<^verbatim>\<open>isGenerating\<close>, storing the new image, clearing the flag), applied to any state, and
  every state the handler passes through, has the same other fields of the state, the
  same thumbnail, the same sections in the same order, and every section with another id
  unchanged in all its fields. The same holds for \<^verbatim>\<open>onSectionUpdate\<close>, which either
  regenerates or replaces the image of that section.
\<close>

theorem regenerate_changes_one_section:
  "othersUnchanged sid prev (markGenerating sid prev)
   \<and> othersUnchanged sid prev (storeImage sid v prev)
   \<and> othersUnchanged sid prev (clearGenerating sid prev)
   \<and> (\<forall>st' \<in> set (trace (handleSectionRegenerate st sid env)). othersUnchanged sid st st')
   \<and> (\<forall>st' \<in> set (trace (onSectionUpdate st sid u env)). othersUnchanged sid st st')"
proof -
  have regen: "othersUnchanged sid st st'"
    if "st' \<in> set (trace (handleSectionRegenerate st sid env'))" for st' env'
  proof -
    have two: "othersUnchanged sid st (storeImage sid v (markGenerating sid st))"
      "othersUnchanged sid st (clearGenerating sid (markGenerating sid st))" for v
      by (rule othersUnchanged_trans [OF othersUnchanged_steps(1)], rule othersUnchanged_steps)+
    from handleSectionRegenerate_trace [of st sid env'] that show ?thesis
      using othersUnchanged_steps(1) [of sid st] two by auto
  qed
  have update: "othersUnchanged sid st st'"
    if "st' \<in> set (trace (onSectionUpdate st sid u env))" for st'
    using that regen [of st' env] othersUnchanged_steps(4) [of sid st u]
    by (auto simp: onSectionUpdate_def split: if_splits)
  show ?thesis
    using othersUnchanged_steps(1-3) regen update by blast
qed

lemma example_regenerate_ok:
  "trace (handleSectionRegenerate exampleState (str ''section-1'') okImage) =
     [withSections [remoteSection\<lparr>isGenerating := Some True\<rparr>, inlineSection],
      withSections [remoteSection\<lparr>imageUrl := JStr newUrl, isGenerating := Some False\<rparr>,
                    inlineSection]]"
  by code_simp

lemma example_replace:
  "trace (onSectionUpdate exampleState (str ''section-1'') newUrl okImage) =
     [withSections [remoteSection\<lparr>imageUrl := JStr newUrl\<rparr>, inlineSection]]"
  by code_simp

theorem regenerate_changes_one_section_witness:
  "trace (handleSectionRegenerate exampleState (str ''section-1'') okImage) =
     [withSections [remoteSection\<lparr>isGenerating := Some True\<rparr>, inlineSection],
      withSections [remoteSection\<lparr>imageUrl := JStr newUrl, isGenerating := Some False\<rparr>,
                    inlineSection]]
   \<and> othersUnchanged (str ''section-1'') exampleState
        (withSections [remoteSection\<lparr>isGenerating := Some True\<rparr>, inlineSection])
   \<and> othersUnchanged (str ''section-1'') exampleState
        (withSections [remoteSection\<lparr>imageUrl := JStr newUrl, isGenerating := Some False\<rparr>,
                       inlineSection])
   \<and> trace (onSectionUpdate exampleState (str ''section-1'') newUrl okImage) =
       [withSections [remoteSection\<lparr>imageUrl := JStr newUrl\<rparr>, inlineSection]]
   \<and> othersUnchanged (str ''section-1'') exampleState
        (withSections [remoteSection\<lparr>imageUrl := JStr newUrl\<rparr>, inlineSection])
   \<and> section_id inlineSection \<noteq> str ''section-1''"
proof -
  have other: "section_id inlineSection \<noteq> str ''section-1''"
    by code_simp
  note main = regenerate_changes_one_section
                [where sid = "str ''section-1''" and prev = exampleState and v = "JStr newUrl"
                   and st = exampleState and env = okImage and u = newUrl]
  from main
  have "\<forall>st' \<in> set (trace (handleSectionRegenerate exampleState (str ''section-1'') okImage)).
          othersUnchanged (str ''section-1'') exampleState st'"
    by blast
  then have a: "othersUnchanged (str ''section-1'') exampleState
        (withSections [remoteSection\<lparr>isGenerating := Some True\<rparr>, inlineSection])"
    "othersUnchanged (str ''section-1'') exampleState
        (withSections [remoteSection\<lparr>imageUrl := JStr newUrl, isGenerating := Some False\<rparr>,
                       inlineSection])"
    by (simp_all add: example_regenerate_ok)
  from main
  have "\<forall>st' \<in> set (trace (onSectionUpdate exampleState (str ''section-1'') newUrl okImage)).
          othersUnchanged (str ''section-1'') exampleState st'"
    by blast
  then have b: "othersUnchanged (str ''section-1'') exampleState
        (withSections [remoteSection\<lparr>imageUrl := JStr newUrl\<rparr>, inlineSection])"
    by (simp add: example_replace)
  from a b other show ?thesis
    by (simp add: example_regenerate_ok example_replace)
qed

end
